theory Spec2Isabelle
  imports Main "HOL-Library.Sublist"
begin

section \<open>Python values, exceptions and built-in operations\<close>

text \<open>
  The handlers of \<^verbatim>\<open>aws_lambda.py\<close> drive four collaborators: the remote
  collection client (\<^verbatim>\<open>kinto_http.Client\<close>), the canonical serialiser, the hasher and
  the signature verifier. What the remote service sends back is JSON, which the Python code
  reads with subscripts; a subscript on a value of the wrong shape raises. The values are
  therefore modelled dynamically, and every raise is an \<open>Inl\<close> of the result.
  Floating point numbers are left out of the values.
\<close>

datatype json =
    JNull
  | JBool bool
  | JInt int
  | JStr string
  | JArr "json list"
  | JObj "(string \<times> json) list"

text \<open>An exception: its class name and its \<^verbatim>\<open>str()\<close> rendering.\<close>

datatype exc = Exc (exc_class: string) (exc_str: string)

text \<open>
  \<^verbatim>\<open>except Exception\<close> catches the instances of \<^verbatim>\<open>Exception\<close> and of its subclasses.
  The classes outside it are \<^verbatim>\<open>BaseException\<close> itself and its other built-in
  subclasses; the collaborators define none of their own.
\<close>

definition base_only :: "string list" where
  "base_only = [''BaseException'', ''SystemExit'', ''KeyboardInterrupt'', ''GeneratorExit'']"

definition is_Exception :: "exc \<Rightarrow> bool" where
  "is_Exception e = (exc_class e \<notin> set base_only)"

definition NL :: string where
  "NL = [CHR 0x0A]"

definition backquote :: string where
  "backquote = [CHR 0x60]"

definition py_quote :: "string \<Rightarrow> string" where
  "py_quote s = [CHR 0x27] @ s @ [CHR 0x27]"

text \<open>
  The errors the interpreter itself raises. The text of their messages differs between
  Python versions; no statement below depends on it.
\<close>

definition KeyError :: "string \<Rightarrow> exc" where
  "KeyError k = Exc ''KeyError'' (py_quote k)"

definition TypeError :: "string \<Rightarrow> exc" where
  "TypeError m = Exc ''TypeError'' m"

definition AttributeError :: "string \<Rightarrow> exc" where
  "AttributeError m = Exc ''AttributeError'' m"

definition UnboundLocalError :: "string \<Rightarrow> exc" where
  "UnboundLocalError v =
     Exc ''UnboundLocalError'' (''local variable '' @ py_quote v @ '' referenced before assignment'')"

definition FileNotFoundError :: "nat \<Rightarrow> exc" where
  "FileNotFoundError n = Exc ''FileNotFoundError'' ''[Errno 2] No such file or directory''"

definition ValueError :: "string \<Rightarrow> exc" where
  "ValueError m = Exc ''ValueError'' m"

text \<open>\<^verbatim>\<open>class ValidationError(Exception): pass\<close>\<close>

definition ValidationError :: "string \<Rightarrow> exc" where
  "ValidationError m = Exc ''ValidationError'' m"

fun type_name :: "json \<Rightarrow> string" where
  "type_name JNull = ''NoneType''"
| "type_name (JBool b) = ''bool''"
| "type_name (JInt i) = ''int''"
| "type_name (JStr s) = ''str''"
| "type_name (JArr xs) = ''list''"
| "type_name (JObj kvs) = ''dict''"

text \<open>\<^verbatim>\<open>v[k]\<close> with a string key: a lookup in a dict, \<^verbatim>\<open>KeyError\<close> when the key is
  missing, \<^verbatim>\<open>TypeError\<close> on anything that is not a dict.\<close>

fun getitem :: "json \<Rightarrow> string \<Rightarrow> exc + json" where
  "getitem (JObj kvs) k =
     (case map_of kvs k of None \<Rightarrow> Inl (KeyError k) | Some v \<Rightarrow> Inr v)"
| "getitem (JStr s) k = Inl (TypeError ''string indices must be integers'')"
| "getitem (JArr xs) k = Inl (TypeError ''list indices must be integers or slices, not str'')"
| "getitem v k = Inl (TypeError (py_quote (type_name v) @ '' object is not subscriptable''))"

text \<open>\<^verbatim>\<open>v.encode('utf-8')\<close>: strings are byte lists here, so encoding a string is the
  identity; any other value has no such method.\<close>

fun encode :: "json \<Rightarrow> exc + string" where
  "encode (JStr s) = Inr s"
| "encode v = Inl (AttributeError (py_quote (type_name v) @ '' object has no attribute ''
     @ py_quote ''encode''))"

text \<open>\<^verbatim>\<open>for x in v\<close>: the elements of a list, the keys of a dict, the characters of a
  string; the other values are not iterable.\<close>

fun py_iter :: "json \<Rightarrow> exc + json list" where
  "py_iter (JArr xs) = Inr xs"
| "py_iter (JObj kvs) = Inr (map (\<lambda>kv. JStr (fst kv)) kvs)"
| "py_iter (JStr s) = Inr (map (\<lambda>c. JStr [c]) s)"
| "py_iter v = Inl (TypeError (py_quote (type_name v) @ '' object is not iterable''))"

text \<open>\<^verbatim>\<open>sep.join(xs)\<close>\<close>

fun join :: "string \<Rightarrow> string list \<Rightarrow> string" where
  "join sep [] = []"
| "join sep [x] = x"
| "join sep (x # y # ys) = x @ sep @ join sep (y # ys)"

text \<open>Decimal rendering of an integer, as \<^verbatim>\<open>str\<close> gives it.\<close>

fun show_nat :: "nat \<Rightarrow> string" where
  "show_nat n =
     (if n < 10 then [''0123456789'' ! n]
      else show_nat (n div 10) @ [''0123456789'' ! (n mod 10)])"

declare show_nat.simps [simp del]

definition show_int :: "int \<Rightarrow> string" where
  "show_int i = (if i < 0 then CHR ''-'' # show_nat (nat (- i)) else show_nat (nat i))"

text \<open>\<^verbatim>\<open>s.split(sep, 1)\<close> for a one-character separator: at most one split, at the
  first occurrence of the separator.\<close>

definition split1 :: "char \<Rightarrow> string \<Rightarrow> string list" where
  "split1 sep s =
     (case dropWhile (\<lambda>c. c \<noteq> sep) s of
        [] \<Rightarrow> [s]
      | c # rest \<Rightarrow> [takeWhile (\<lambda>c. c \<noteq> sep) s, rest])"

section \<open>The collaborators and the world\<close>

text \<open>\<^verbatim>\<open>Client(server_url=..., bucket=..., collection=..., auth=...)\<close>\<close>

datatype client =
  Client (cl_server_url: string) (cl_bucket: string) (cl_collection: string)
    (cl_auth: "string list option")

text \<open>The requests a client sends: \<^verbatim>\<open>get_collection()\<close>,
  \<^verbatim>\<open>get_records(_sort=...)\<close>, \<^verbatim>\<open>get_records_timestamp(bucket=..., collection=...)\<close>
  and \<^verbatim>\<open>patch_collection(data=...)\<close>, with the keyword arguments the call site gives.\<close>

datatype call =
    GetCollection client
  | GetRecords client "string option"
  | GetRecordsTimestamp client "(json \<times> json) option"
  | PatchCollection client json

text \<open>The trace of an invocation: every call of a collaborator, in order.\<close>

datatype event =
    Remote call
  | CanonicalJson json json
  | ComputeHash string
  | Verify "string option" string json

text \<open>
  The collaborators are parameters of the model. The remote service answers a request
  with a value or an exception, and its answer may depend on everything that was called
  before (the service has state, and a patch changes it). The serialiser, the hasher and
  the verifier are functions of their arguments that may raise;
  \<open>verify env key serialized signature\<close> stands for
  \<^verbatim>\<open>ECDSASigner(public_key=path).verify(serialized, signature)\<close>, where \<open>key\<close> is what
  the file at \<open>path\<close> holds. \<open>tmp_error\<close>, \<open>write_error\<close> and \<open>close_error\<close> say
  whether creating, writing or closing the n-th temporary file raises.
  \<open>py_repr\<close> is the rendering \<^verbatim>\<open>str()\<close> gives a list or dict, \<open>int_of_str\<close> is
  \<^verbatim>\<open>int()\<close> on a string, and \<open>utc_strftime ms\<close> stands for
  \<^verbatim>\<open>datetime.utcfromtimestamp(ms / 1000).strftime('%Y-%m-%d %H:%M:%S UTC')\<close> (the
  quotient is a float under Python 3).
\<close>

record env =
  remote :: "event list \<Rightarrow> call \<Rightarrow> exc + json"
  get_endpoint :: "client \<Rightarrow> string \<Rightarrow> string"
  canonical_json :: "json \<Rightarrow> json \<Rightarrow> exc + string"
  compute_hash :: "string \<Rightarrow> exc + string"
  verify :: "string option \<Rightarrow> string \<Rightarrow> json \<Rightarrow> exc option"
  tmp_error :: "nat \<Rightarrow> exc option"
  write_error :: "nat \<Rightarrow> exc option"
  close_error :: "nat \<Rightarrow> exc option"
  py_repr :: "json \<Rightarrow> string"
  int_of_str :: "string \<Rightarrow> exc + int"
  utc_strftime :: "int \<Rightarrow> exc + string"
  getenv :: "string \<Rightarrow> string option"

text \<open>What an invocation can change: the trace of calls, the standard output, the
  temporary files that exist (name and content) and the number of the next temporary file.\<close>

record world =
  trace :: "event list"
  stdout :: string
  files :: "(nat \<times> string) list"
  next_tmp :: nat

text \<open>The event a Lambda handler receives, with the keys the handlers read; a key the
  event does not have is \<open>None\<close>. The entries of \<^verbatim>\<open>collections\<close> are dicts with the
  keys \<^verbatim>\<open>bucket\<close> and \<^verbatim>\<open>collection\<close>, as the entries of the default list are.\<close>

datatype collection_ref = CollectionRef (cr_bucket: string) (cr_collection: string)

record event_dict =
  ev_server :: "string option"
  ev_collections :: "collection_ref list option"
  ev_bucket :: "string option"
  ev_collection :: "string option"

definition DEFAULT_COLLECTIONS :: "collection_ref list" where
  "DEFAULT_COLLECTIONS =
     [CollectionRef ''blocklists'' ''certificates'',
      CollectionRef ''blocklists'' ''addons'',
      CollectionRef ''blocklists'' ''plugins'',
      CollectionRef ''blocklists'' ''gfx'',
      CollectionRef ''pinning'' ''pins'']"

text \<open>\<^verbatim>\<open>str(v)\<close> and \<^verbatim>\<open>'{}'.format(v)\<close>\<close>

fun py_str :: "env \<Rightarrow> json \<Rightarrow> string" where
  "py_str env JNull = ''None''"
| "py_str env (JBool b) = (if b then ''True'' else ''False'')"
| "py_str env (JInt i) = show_int i"
| "py_str env (JStr s) = s"
| "py_str env v = py_repr env v"

text \<open>\<^verbatim>\<open>int(v)\<close>\<close>

fun py_int :: "env \<Rightarrow> json \<Rightarrow> exc + int" where
  "py_int env (JInt i) = Inr i"
| "py_int env (JBool b) = Inr (if b then 1 else 0)"
| "py_int env (JStr s) = int_of_str env s"
| "py_int env v = Inl (TypeError (''int() argument must be a string, a bytes-like object or a number, not ''
     @ py_quote (type_name v)))"

text \<open>\<^verbatim>\<open>print(text, end=e)\<close>\<close>

definition py_print :: "string \<Rightarrow> string \<Rightarrow> world \<Rightarrow> world" where
  "py_print s e w = w\<lparr>stdout := stdout w @ s @ e\<rparr>"

definition call_remote :: "env \<Rightarrow> call \<Rightarrow> world \<Rightarrow> (exc + json) \<times> world" where
  "call_remote env c w = (remote env (trace w) c, w\<lparr>trace := trace w @ [Remote c]\<rparr>)"

definition call_canonical_json :: "env \<Rightarrow> json \<Rightarrow> json \<Rightarrow> world \<Rightarrow> (exc + string) \<times> world" where
  "call_canonical_json env records timestamp w =
     (canonical_json env records timestamp, w\<lparr>trace := trace w @ [CanonicalJson records timestamp]\<rparr>)"

definition call_compute_hash :: "env \<Rightarrow> string \<Rightarrow> world \<Rightarrow> (exc + string) \<times> world" where
  "call_compute_hash env serialized w =
     (compute_hash env serialized, w\<lparr>trace := trace w @ [ComputeHash serialized]\<rparr>)"

definition call_verify :: "env \<Rightarrow> string option \<Rightarrow> string \<Rightarrow> json \<Rightarrow> world \<Rightarrow> exc option \<times> world" where
  "call_verify env key serialized signature w =
     (verify env key serialized signature, w\<lparr>trace := trace w @ [Verify key serialized signature]\<rparr>)"

text \<open>\<^verbatim>\<open>f.write(data)\<close> and \<^verbatim>\<open>os.unlink(name)\<close> on the temporary files.\<close>

definition file_write :: "nat \<Rightarrow> string \<Rightarrow> (nat \<times> string) list \<Rightarrow> (nat \<times> string) list" where
  "file_write n s fs = map (\<lambda>kv. if fst kv = n then (fst kv, snd kv @ s) else kv) fs"

definition os_unlink :: "nat \<Rightarrow> world \<Rightarrow> exc + world" where
  "os_unlink n w =
     (if n \<in> fst ` set (files w)
      then Inr (w\<lparr>files := filter (\<lambda>kv. fst kv \<noteq> n) (files w)\<rparr>)
      else Inl (FileNotFoundError n))"

section \<open>validate_signature\<close>

text \<open>The local variables of \<^verbatim>\<open>validate_signature\<close> that live across the iterations of
  its loop: \<^verbatim>\<open>exception\<close>, \<^verbatim>\<open>messages\<close> and the file object \<^verbatim>\<open>f\<close> (unbound until the
  first temporary file is created; \<open>f_tmp\<close> holds the name of the file it is bound to).\<close>

record locals =
  exception :: "exc option"
  messages :: "string list"
  f_tmp :: "nat option"

text \<open>Lines 57 to 71: fetch the collection, the records and the timestamp, serialise,
  hash, read the signature. Nothing here is inside the \<^verbatim>\<open>try\<close>.\<close>

definition vs_steps :: "env \<Rightarrow> client \<Rightarrow> world \<Rightarrow> (exc + json \<times> string \<times> string \<times> json) \<times> world" where
  "vs_steps env cl w =
    (case call_remote env (GetCollection cl) w of
       (Inl e, w1) \<Rightarrow> (Inl e, w1)
     | (Inr dest_col, w1) \<Rightarrow>
    (case call_remote env (GetRecords cl (Some ''-last_modified'')) w1 of
       (Inl e, w2) \<Rightarrow> (Inl e, w2)
     | (Inr records, w2) \<Rightarrow>
    (case call_remote env (GetRecordsTimestamp cl None) w2 of
       (Inl e, w3) \<Rightarrow> (Inl e, w3)
     | (Inr timestamp, w3) \<Rightarrow>
    (case call_canonical_json env records timestamp w3 of
       (Inl e, w4) \<Rightarrow> (Inl e, w4)
     | (Inr serialized, w4) \<Rightarrow>
    (case call_compute_hash env serialized w4 of
       (Inl e, w5) \<Rightarrow> (Inl e, w5)
     | (Inr computed_hash, w5) \<Rightarrow>
    (case getitem dest_col ''data'' of
       Inl e \<Rightarrow> (Inl e, w5)
     | Inr d \<Rightarrow>
    (case getitem d ''signature'' of
       Inl e \<Rightarrow> (Inl e, w5)
     | Inr signature \<Rightarrow> (Inr (timestamp, serialized, computed_hash, signature), w5))))))))"

text \<open>Lines 75 to 84, the body of the \<^verbatim>\<open>try\<close>: the result is the exception it raised, if
  any. When \<^verbatim>\<open>NamedTemporaryFile\<close> raises, \<^verbatim>\<open>f\<close> is not assigned.\<close>

definition vs_try :: "env \<Rightarrow> string \<Rightarrow> json \<Rightarrow> locals \<times> world \<Rightarrow> exc option \<times> locals \<times> world" where
  "vs_try env serialized signature S =
    (case S of (L, w) \<Rightarrow>
    (case tmp_error env (next_tmp w) of
       Some e \<Rightarrow> (Some e, L, w)
     | None \<Rightarrow>
    (let n = next_tmp w;
         w1 = w\<lparr>files := (n, []) # files w, next_tmp := Suc n\<rparr>;
         L1 = L\<lparr>f_tmp := Some n\<rparr>
     in
    (case getitem signature ''public_key'' of
       Inl e \<Rightarrow> (Some e, L1, w1)
     | Inr public_key \<Rightarrow>
    (case encode public_key of
       Inl e \<Rightarrow> (Some e, L1, w1)
     | Inr key \<Rightarrow>
    (case write_error env n of
       Some e \<Rightarrow> (Some e, L1, w1)
     | None \<Rightarrow>
    (let w2 = w1\<lparr>files := file_write n key (files w1)\<rparr> in
    (case close_error env n of
       Some e \<Rightarrow> (Some e, L1, w2)
     | None \<Rightarrow>
    (case call_verify env (map_of (files w2) n) serialized signature w2 of
       (Some e, w3) \<Rightarrow> (Some e, L1, w3)
     | (None, w3) \<Rightarrow>
         (None, L1\<lparr>messages := messages L1 @ [''Signature OK'']\<rparr>,
          py_print ''Signature OK'' NL w3))))))))))"

text \<open>Lines 85 to 92, the \<^verbatim>\<open>except Exception as e\<close> handler.\<close>

definition ko_message :: "env \<Rightarrow> json \<Rightarrow> string \<Rightarrow> string \<Rightarrow> string list" where
  "ko_message env timestamp serialized computed_hash =
     [''Signature KO.'',
      '' - Computed hash: '' @ backquote @ computed_hash @ backquote,
      '' - Collection timestamp: '' @ backquote @ py_str env timestamp @ backquote,
      '' - Serialized content: '' @ backquote @ serialized @ backquote]"

definition vs_except :: "env \<Rightarrow> exc \<Rightarrow> json \<Rightarrow> string \<Rightarrow> string \<Rightarrow> locals \<times> world \<Rightarrow> locals \<times> world" where
  "vs_except env e timestamp serialized computed_hash S =
    (case S of (L, w) \<Rightarrow>
     (let message = ko_message env timestamp serialized computed_hash in
      (L\<lparr>exception := Some e, messages := messages L @ message\<rparr>,
       py_print (join NL message) NL w)))"

text \<open>Lines 93 and 94, the \<^verbatim>\<open>finally\<close> clause: \<^verbatim>\<open>os.unlink(f.name)\<close>. An exception
  raised here leaves the function.\<close>

definition vs_finally :: "locals \<times> world \<Rightarrow> exc option \<times> locals \<times> world" where
  "vs_finally S =
    (case S of (L, w) \<Rightarrow>
    (case f_tmp L of
       None \<Rightarrow> (Some (UnboundLocalError ''f''), L, w)
     | Some n \<Rightarrow>
    (case os_unlink n w of
       Inl e \<Rightarrow> (Some e, L, w)
     | Inr w' \<Rightarrow> (None, L, w'))))"

text \<open>Lines 50 to 55: the client of the collection and the first message.\<close>

definition vs_client :: "string \<Rightarrow> collection_ref \<Rightarrow> client" where
  "vs_client server_url c = Client server_url (cr_bucket c) (cr_collection c) None"

definition looking_at :: "env \<Rightarrow> client \<Rightarrow> string" where
  "looking_at env cl = ''Looking at '' @ get_endpoint env cl ''collection'' @ '': ''"

definition vs_begin :: "env \<Rightarrow> client \<Rightarrow> locals \<times> world \<Rightarrow> locals \<times> world" where
  "vs_begin env cl S =
    (case S of (L, w) \<Rightarrow>
      (L\<lparr>messages := messages L @ [looking_at env cl]\<rparr>, py_print (looking_at env cl) [] w))"

text \<open>One iteration of the loop, lines 50 to 94. The result is the exception that leaves
  the loop, if any. The handler of line 85 is \<^verbatim>\<open>except Exception as e\<close>: an exception
  of the \<^verbatim>\<open>try\<close> body that is no \<^verbatim>\<open>Exception\<close> is not handled; the \<^verbatim>\<open>finally\<close>
  clause runs and the exception leaves the function, unless the clause raises itself.\<close>

definition vs_iteration :: "env \<Rightarrow> string \<Rightarrow> collection_ref \<Rightarrow> locals \<times> world \<Rightarrow> exc option \<times> locals \<times> world" where
  "vs_iteration env server_url c S =
    (let cl = vs_client server_url c in
    (case vs_begin env cl S of (L0, w0) \<Rightarrow>
    (case vs_steps env cl w0 of
       (Inl e, w1) \<Rightarrow> (Some e, L0, w1)
     | (Inr (timestamp, serialized, computed_hash, signature), w1) \<Rightarrow>
    (case vs_try env serialized signature (L0, w1) of
       (None, S2) \<Rightarrow> vs_finally S2
     | (Some e, S2) \<Rightarrow>
         if is_Exception e
         then vs_finally (vs_except env e timestamp serialized computed_hash S2)
         else (case vs_finally S2 of
                 (None, S3) \<Rightarrow> (Some e, S3)
               | (Some e', S3) \<Rightarrow> (Some e', S3))))))"

fun vs_loop :: "env \<Rightarrow> string \<Rightarrow> collection_ref list \<Rightarrow> locals \<times> world \<Rightarrow> exc option \<times> locals \<times> world" where
  "vs_loop env server_url [] S = (None, S)"
| "vs_loop env server_url (c # cs) S =
    (case vs_iteration env server_url c S of
       (Some e, S') \<Rightarrow> (Some e, S')
     | (None, S') \<Rightarrow> vs_loop env server_url cs S')"

definition event_collections :: "event_dict \<Rightarrow> collection_ref list" where
  "event_collections event =
     (case ev_collections event of None \<Rightarrow> DEFAULT_COLLECTIONS | Some cs \<Rightarrow> cs)"

definition vs_init :: locals where
  "vs_init = \<lparr>exception = None, messages = [], f_tmp = None\<rparr>"

definition validate_signature :: "env \<Rightarrow> event_dict \<Rightarrow> world \<Rightarrow> (exc + unit) \<times> world" where
  "validate_signature env event w =
    (case ev_server event of
       None \<Rightarrow> (Inl (KeyError ''server''), w)
     | Some server_url \<Rightarrow>
    (case vs_loop env server_url (event_collections event) (vs_init, w) of
       (Some e, L, w') \<Rightarrow> (Inl e, w')
     | (None, L, w') \<Rightarrow>
    (case exception L of
       None \<Rightarrow> (Inr (), w')
     | Some e \<Rightarrow>
         (Inl (ValidationError (exc_str e @ '':'' @ NL @ join NL (messages L))), w'))))"

section \<open>validate_changes_collection\<close>

text \<open>Lines 115 to 118: read the entry and fetch the timestamp of the collection it
  names.\<close>

definition vcc_fetch :: "env \<Rightarrow> client \<Rightarrow> json \<Rightarrow> world \<Rightarrow> (exc + json \<times> json \<times> json \<times> json) \<times> world" where
  "vcc_fetch env cl entry w =
    (case getitem entry ''bucket'' of
       Inl e \<Rightarrow> (Inl e, w)
     | Inr bid \<Rightarrow>
    (case getitem entry ''collection'' of
       Inl e \<Rightarrow> (Inl e, w)
     | Inr cid \<Rightarrow>
    (case getitem entry ''last_modified'' of
       Inl e \<Rightarrow> (Inl e, w)
     | Inr last_modified \<Rightarrow>
    (case call_remote env (GetRecordsTimestamp cl (Some (bid, cid))) w of
       (Inl e, w1) \<Rightarrow> (Inl e, w1)
     | (Inr etag, w1) \<Rightarrow> (Inr (bid, cid, last_modified, etag), w1)))))"

definition etag_ok :: "env \<Rightarrow> json \<Rightarrow> json \<Rightarrow> json \<Rightarrow> string" where
  "etag_ok env bid cid etag =
     ''Etag OK for '' @ py_str env bid @ ''/'' @ py_str env cid @ '' : '' @ py_str env etag"

definition etag_not_ok :: "env \<Rightarrow> json \<Rightarrow> json \<Rightarrow> json \<Rightarrow> json \<Rightarrow> string" where
  "etag_not_ok env bid cid last_modified etag =
     ''Etag NOT OK for '' @ py_str env bid @ ''/'' @ py_str env cid @ '' : ''
       @ py_str env last_modified @ '' != '' @ py_str env etag"

text \<open>One iteration of the loop, lines 115 to 123, on the flag \<^verbatim>\<open>everything_ok\<close>.\<close>

definition vcc_iteration :: "env \<Rightarrow> client \<Rightarrow> json \<Rightarrow> bool \<times> world \<Rightarrow> exc option \<times> bool \<times> world" where
  "vcc_iteration env cl entry S =
    (case S of (everything_ok, w) \<Rightarrow>
    (case vcc_fetch env cl entry w of
       (Inl e, w1) \<Rightarrow> (Some e, everything_ok, w1)
     | (Inr (bid, cid, last_modified, etag), w1) \<Rightarrow>
         if py_str env etag = py_str env last_modified
         then (None, everything_ok, py_print (etag_ok env bid cid etag) NL w1)
         else (None, False, py_print (etag_not_ok env bid cid last_modified etag) NL w1)))"

fun vcc_loop :: "env \<Rightarrow> client \<Rightarrow> json list \<Rightarrow> bool \<times> world \<Rightarrow> exc option \<times> bool \<times> world" where
  "vcc_loop env cl [] S = (None, S)"
| "vcc_loop env cl (entry # entries) S =
    (case vcc_iteration env cl entry S of
       (Some e, S') \<Rightarrow> (Some e, S')
     | (None, S') \<Rightarrow> vcc_loop env cl entries S')"

definition vcc_client :: "event_dict \<Rightarrow> string \<Rightarrow> client" where
  "vcc_client event server_url =
     Client server_url
       (case ev_bucket event of None \<Rightarrow> ''monitor'' | Some b \<Rightarrow> b)
       (case ev_collection event of None \<Rightarrow> ''changes'' | Some c \<Rightarrow> c)
       None"

text \<open>Lines 109 to 111 and the head of the loop: the entries of the registry.\<close>

definition vcc_registry :: "env \<Rightarrow> client \<Rightarrow> world \<Rightarrow> (exc + json list) \<times> world" where
  "vcc_registry env cl w =
    (case call_remote env (GetRecords cl None) (py_print (looking_at env cl) NL w) of
       (Inl e, w1) \<Rightarrow> (Inl e, w1)
     | (Inr collections, w1) \<Rightarrow>
    (case py_iter collections of
       Inl e \<Rightarrow> (Inl e, w1)
     | Inr entries \<Rightarrow> (Inr entries, w1)))"

definition validate_changes_collection :: "env \<Rightarrow> event_dict \<Rightarrow> world \<Rightarrow> (exc + unit) \<times> world" where
  "validate_changes_collection env event w =
    (case ev_server event of
       None \<Rightarrow> (Inl (KeyError ''server''), w)
     | Some server_url \<Rightarrow>
    (case vcc_registry env (vcc_client event server_url) w of
       (Inl e, w1) \<Rightarrow> (Inl e, w1)
     | (Inr entries, w1) \<Rightarrow>
    (case vcc_loop env (vcc_client event server_url) entries (True, w1) of
       (Some e, ok, w2) \<Rightarrow> (Inl e, w2)
     | (None, everything_ok, w2) \<Rightarrow>
         if \<not> everything_ok
         then (Inl (ValueError ''One of the collection did not validate.''), w2)
         else (Inr (), w2))))"

section \<open>refresh_signature\<close>

text \<open>\<^verbatim>\<open>timestamp_to_date\<close>, lines 129 to 131.\<close>

definition timestamp_to_date :: "env \<Rightarrow> json \<Rightarrow> exc + string" where
  "timestamp_to_date env timestamp_milliseconds =
    (case py_int env timestamp_milliseconds of
       Inl e \<Rightarrow> Inl e
     | Inr ms \<Rightarrow> utc_strftime env ms)"

text \<open>Line 137: \<^verbatim>\<open>tuple(os.getenv("REFRESH_SIGNATURE_AUTH").split(':', 1))\<close>. The tuple
  is the list of its components; \<^verbatim>\<open>os.getenv\<close> gives \<^verbatim>\<open>None\<close> for a variable that is
  not set, and \<^verbatim>\<open>None\<close> has no \<^verbatim>\<open>split\<close>.\<close>

definition refresh_auth :: "env \<Rightarrow> exc + string list" where
  "refresh_auth env =
    (case getenv env ''REFRESH_SIGNATURE_AUTH'' of
       None \<Rightarrow> Inl (AttributeError (py_quote ''NoneType'' @ '' object has no attribute ''
                 @ py_quote ''split''))
     | Some s \<Rightarrow> Inr (split1 CHR '':'' s))"

text \<open>Lines 153 to 156: ask for a new signature and read the timestamp of the answer.\<close>

definition to_sign :: json where
  "to_sign = JObj [(''status'', JStr ''to-sign'')]"

definition rs_trigger :: "env \<Rightarrow> client \<Rightarrow> world \<Rightarrow> (exc + json) \<times> world" where
  "rs_trigger env cl w =
    (case call_remote env (PatchCollection cl to_sign) (py_print ''Trigger new signature: '' [] w) of
       (Inl e, w1) \<Rightarrow> (Inl e, w1)
     | (Inr new_metadata, w1) \<Rightarrow>
    (case getitem new_metadata ''data'' of
       Inl e \<Rightarrow> (Inl e, w1)
     | Inr d \<Rightarrow>
    (case getitem d ''last_modified'' of
       Inl e \<Rightarrow> (Inl e, w1)
     | Inr last_modified \<Rightarrow> (Inr last_modified, w1))))"

text \<open>Lines 159 and 160: \<^verbatim>\<open>print(status, 'at', date, '(', last_modified, ')')\<close>.\<close>

definition status_line :: "env \<Rightarrow> json \<Rightarrow> string \<Rightarrow> json \<Rightarrow> string" where
  "status_line env status date last_modified =
     join '' '' [py_str env status, ''at'', date, ''('', py_str env last_modified, '')'']"

text \<open>Lines 140 to 144: the client of the collection, with the credentials, and the text
  that line 144 prints (with \<^verbatim>\<open>end=' '\<close>).\<close>

definition rs_client :: "string \<Rightarrow> string list \<Rightarrow> collection_ref \<Rightarrow> client" where
  "rs_client server_url au c = Client server_url (cr_bucket c) (cr_collection c) (Some au)"

definition rs_looking_at :: "env \<Rightarrow> client \<Rightarrow> string" where
  "rs_looking_at env cl = ''Looking at '' @ get_endpoint env cl ''collection'' @ '':'' @ '' ''"

text \<open>One iteration of the loop, lines 140 to 160.\<close>

definition rs_iteration :: "env \<Rightarrow> string \<Rightarrow> string list \<Rightarrow> collection_ref \<Rightarrow> world \<Rightarrow> exc option \<times> world" where
  "rs_iteration env server_url au c w =
    (let cl = rs_client server_url au c;
         w0 = py_print (''Looking at '' @ get_endpoint env cl ''collection'' @ '':'') '' '' w
     in
    (case call_remote env (GetCollection cl) w0 of
       (Inl e, w1) \<Rightarrow> (Some e, w1)
     | (Inr r, w1) \<Rightarrow>
    (case getitem r ''data'' of
       Inl e \<Rightarrow> (Some e, w1)
     | Inr collection_metadata \<Rightarrow>
    (case getitem collection_metadata ''last_modified'' of
       Inl e \<Rightarrow> (Some e, w1)
     | Inr last_modified \<Rightarrow>
    (case getitem collection_metadata ''status'' of
       Inl e \<Rightarrow> (Some e, w1)
     | Inr status \<Rightarrow>
    (case (if status = JStr ''signed'' then rs_trigger env cl w1 else (Inr last_modified, w1)) of
       (Inl e, w2) \<Rightarrow> (Some e, w2)
     | (Inr last_modified', w2) \<Rightarrow>
    (case timestamp_to_date env last_modified' of
       Inl e \<Rightarrow> (Some e, w2)
     | Inr date \<Rightarrow>
         (None, py_print (status_line env status date last_modified') NL w2))))))))"

fun rs_loop :: "env \<Rightarrow> string \<Rightarrow> string list \<Rightarrow> collection_ref list \<Rightarrow> world \<Rightarrow> exc option \<times> world" where
  "rs_loop env server_url au [] w = (None, w)"
| "rs_loop env server_url au (c # cs) w =
    (case rs_iteration env server_url au c w of
       (Some e, w') \<Rightarrow> (Some e, w')
     | (None, w') \<Rightarrow> rs_loop env server_url au cs w')"

definition refresh_signature :: "env \<Rightarrow> event_dict \<Rightarrow> world \<Rightarrow> (exc + unit) \<times> world" where
  "refresh_signature env event w =
    (case ev_server event of
       None \<Rightarrow> (Inl (KeyError ''server''), w)
     | Some server_url \<Rightarrow>
    (case refresh_auth env of
       Inl e \<Rightarrow> (Inl e, w)
     | Inr au \<Rightarrow>
    (case rs_loop env server_url au (event_collections event) w of
       (Some e, w') \<Rightarrow> (Inl e, w')
     | (None, w') \<Rightarrow> (Inr (), w'))))"

section \<open>What a run is observed by\<close>

text \<open>
  How one iteration of the loop of \<^verbatim>\<open>validate_signature\<close> ends, read off the pieces of
  the iteration: an exception of lines 57 to 71 leaves the function (\<open>Escaped\<close>); the
  body of the \<^verbatim>\<open>try\<close> ends normally (\<open>Passed\<close>); it raises an exception that the
  handler catches, and the handler runs with the timestamp, the serialised content and
  the hash of this iteration (\<open>Failed\<close>); or it raises an exception that the handler
  does not catch (\<open>Uncaught\<close>).
\<close>

datatype verdict = Escaped exc | Passed | Failed exc json string string | Uncaught exc

definition vs_verdict :: "env \<Rightarrow> string \<Rightarrow> collection_ref \<Rightarrow> locals \<times> world \<Rightarrow> verdict" where
  "vs_verdict env server_url c S =
    (let cl = vs_client server_url c in
    (case vs_begin env cl S of (L0, w0) \<Rightarrow>
    (case vs_steps env cl w0 of
       (Inl e, w1) \<Rightarrow> Escaped e
     | (Inr (timestamp, serialized, computed_hash, signature), w1) \<Rightarrow>
    (case vs_try env serialized signature (L0, w1) of
       (None, S2) \<Rightarrow> Passed
     | (Some e, S2) \<Rightarrow>
         if is_Exception e then Failed e timestamp serialized computed_hash else Uncaught e))))"

text \<open>The verdicts with which an exception leaves the function.\<close>

fun escaped :: "verdict \<Rightarrow> bool" where
  "escaped (Escaped e) = True"
| "escaped (Uncaught e) = True"
| "escaped v = False"

text \<open>The verdicts of the iterations of a run, each in the state the loop has reached;
  the list ends with the iteration that an exception leaves, if there is one.\<close>

fun vs_verdicts :: "env \<Rightarrow> string \<Rightarrow> collection_ref list \<Rightarrow> locals \<times> world \<Rightarrow> verdict list" where
  "vs_verdicts env server_url [] S = []"
| "vs_verdicts env server_url (c # cs) S =
     vs_verdict env server_url c S #
     (case vs_iteration env server_url c S of
        (None, S') \<Rightarrow> vs_verdicts env server_url cs S'
      | (Some e, S') \<Rightarrow> [])"

text \<open>What an iteration with a given verdict appends to \<^verbatim>\<open>messages\<close>, and the exception
  held by the variable \<^verbatim>\<open>exception\<close> after iterations with given verdicts.\<close>

fun entry_of :: "env \<Rightarrow> string \<Rightarrow> collection_ref \<times> verdict \<Rightarrow> string list" where
  "entry_of env server_url (c, Failed e t s h) =
     looking_at env (vs_client server_url c) # ko_message env t s h"
| "entry_of env server_url (c, Passed) = [looking_at env (vs_client server_url c), ''Signature OK'']"
| "entry_of env server_url (c, v) = [looking_at env (vs_client server_url c)]"

fun last_caught :: "exc option \<Rightarrow> verdict list \<Rightarrow> exc option" where
  "last_caught x [] = x"
| "last_caught x (Failed e t s h # vs) = last_caught (Some e) vs"
| "last_caught x (v # vs) = last_caught x vs"

text \<open>The collections a trace asks the service for, in order.\<close>

fun fetched :: "event \<Rightarrow> client list" where
  "fetched (Remote (GetCollection cl)) = [cl]"
| "fetched ev = []"

definition collections_fetched :: "event list \<Rightarrow> client list" where
  "collections_fetched tr = concat (map fetched tr)"

text \<open>The iteration gets to the \<^verbatim>\<open>try\<close> statement: lines 57 to 71 raise nothing.\<close>

definition reaches_verification :: "env \<Rightarrow> string \<Rightarrow> collection_ref \<Rightarrow> locals \<times> world \<Rightarrow> bool" where
  "reaches_verification env server_url c S =
     (case vs_verdict env server_url c S of Escaped e \<Rightarrow> False | v \<Rightarrow> True)"

text \<open>The arguments of the serialiser and the content given to the verifier, in a trace.\<close>

fun canonical_inputs :: "event \<Rightarrow> (json \<times> json) list" where
  "canonical_inputs (CanonicalJson r t) = [(r, t)]"
| "canonical_inputs ev = []"

fun verified_bytes :: "event \<Rightarrow> string list" where
  "verified_bytes (Verify k s sg) = [s]"
| "verified_bytes ev = []"

text \<open>
  For \<^verbatim>\<open>validate_changes_collection\<close>: what lines 115 to 118 give in each iteration
  (an exception, or the bucket, the collection, the recorded \<^verbatim>\<open>last_modified\<close> and the
  fetched timestamp), each in the state the loop has reached; the (bucket, collection)
  pairs whose timestamp a trace asks for; whether the two renderings of line 119
  differ; and that the values come from the entry.
\<close>

fun vcc_fetches :: "env \<Rightarrow> client \<Rightarrow> json list \<Rightarrow> bool \<times> world \<Rightarrow> (exc + json \<times> json \<times> json \<times> json) list" where
  "vcc_fetches env cl [] S = []"
| "vcc_fetches env cl (entry # entries) S =
     fst (vcc_fetch env cl entry (snd S)) #
     (case vcc_iteration env cl entry S of
        (None, S') \<Rightarrow> vcc_fetches env cl entries S'
      | (Some e, S') \<Rightarrow> [])"

fun ts_requested :: "event \<Rightarrow> (json \<times> json) list" where
  "ts_requested (Remote (GetRecordsTimestamp cl (Some bc))) = [bc]"
| "ts_requested ev = []"

definition timestamps_requested :: "event list \<Rightarrow> (json \<times> json) list" where
  "timestamps_requested tr = concat (map ts_requested tr)"

definition etag_differs :: "env \<Rightarrow> json \<times> json \<times> json \<times> json \<Rightarrow> bool" where
  "etag_differs env x = (case x of (bid, cid, last_modified, etag) \<Rightarrow> py_str env etag \<noteq> py_str env last_modified)"

definition entry_read :: "json \<Rightarrow> json \<times> json \<times> json \<times> json \<Rightarrow> bool" where
  "entry_read entry x = (case x of (bid, cid, last_modified, etag) \<Rightarrow>
     getitem entry ''bucket'' = Inr bid \<and> getitem entry ''collection'' = Inr cid
     \<and> getitem entry ''last_modified'' = Inr last_modified)"

text \<open>The patches a trace sends.\<close>

fun patch_sent :: "event \<Rightarrow> (client \<times> json) list" where
  "patch_sent (Remote (PatchCollection cl d)) = [(cl, d)]"
| "patch_sent ev = []"

definition patches_sent :: "event list \<Rightarrow> (client \<times> json) list" where
  "patches_sent tr = concat (map patch_sent tr)"

section \<open>A sample service\<close>

text \<open>
  A small service for the concrete instances below. The collection \<open>gone\<close> cannot be
  fetched; the signature of \<open>nokey\<close> has no public key; only the key of \<open>addons\<close>
  verifies, and on the key of \<open>halt\<close> the verifier raises \<^verbatim>\<open>SystemExit\<close>; collections of
  the bucket \<open>staging\<close> are not signed. The registry
  \<open>changes\<close> agrees with the live timestamps, the registry \<open>stale\<close> does not.
\<close>

definition demo_entry :: "string \<Rightarrow> int \<Rightarrow> json" where
  "demo_entry cid n = JObj [(''bucket'', JStr ''bl''), (''collection'', JStr cid), (''last_modified'', JInt n)]"

definition demo_remote :: "event list \<Rightarrow> call \<Rightarrow> exc + json" where
  "demo_remote history c =
    (case c of
       GetCollection cl \<Rightarrow>
         if cl_collection cl = ''gone'' then Inl (Exc ''KintoException'' ''404 - Not Found'')
         else Inr (JObj [(''data'', JObj
           [(''status'', JStr (if cl_bucket cl = ''staging'' then ''work-in-progress'' else ''signed'')),
            (''last_modified'', JInt 500),
            (''signature'',
               if cl_collection cl = ''nokey'' then JObj [(''signature'', JStr ''c2ln'')]
               else JObj [(''public_key'', JStr (cl_collection cl)), (''signature'', JStr ''c2ln'')])])])
     | GetRecords cl srt \<Rightarrow>
         Inr (JArr (if cl_collection cl = ''changes'' then [demo_entry ''addons'' 100]
                    else [demo_entry ''addons'' 100, demo_entry ''plugins'' 100]))
     | GetRecordsTimestamp cl other \<Rightarrow>
         (case other of
            None \<Rightarrow> Inr (JStr (''ts-'' @ cl_collection cl))
          | Some bc \<Rightarrow> Inr (JStr (if snd bc = JStr ''addons'' then ''100'' else ''101'')))
     | PatchCollection cl d \<Rightarrow>
         Inr (JObj [(''data'', JObj [(''status'', JStr ''to-sign''), (''last_modified'', JInt 600)])]))"

definition demo_env :: env where
  "demo_env =
    \<lparr>remote = demo_remote,
     get_endpoint = (\<lambda>cl name. ''/'' @ cl_bucket cl @ ''/'' @ cl_collection cl),
     canonical_json = (\<lambda>records timestamp. Inr (''canon-'' @ (case timestamp of JStr s \<Rightarrow> s | _ \<Rightarrow> ''?''))),
     compute_hash = (\<lambda>s. Inr (''sha-'' @ s)),
     verify = (\<lambda>key s sg. if key = Some ''addons'' then None
                 else if key = Some ''halt'' then Some (Exc ''SystemExit'' ''1'')
                 else Some (Exc ''BadSignatureError'' (''bad '' @ s))),
     tmp_error = (\<lambda>n. None),
     write_error = (\<lambda>n. None),
     close_error = (\<lambda>n. None),
     py_repr = (\<lambda>v. ''?''),
     int_of_str = (\<lambda>s. Inl (Exc ''ValueError'' ''invalid literal for int()'')),
     utc_strftime = (\<lambda>ms. Inr ''1970-01-01 00:00:00 UTC''),
     getenv = (\<lambda>name. if name = ''REFRESH_SIGNATURE_AUTH'' then Some ''user:sec:ret'' else None)\<rparr>"

text \<open>The same service with a serialiser and a hasher whose results do not hold the
  timestamp as a substring.\<close>

definition plain_env :: env where
  "plain_env = demo_env
    \<lparr>canonical_json := (\<lambda>records timestamp.
        Inr (''bytes-'' @ (case timestamp of JStr s \<Rightarrow> map (\<lambda>c. CHR ''x'') s | _ \<Rightarrow> ''?''))),
     compute_hash := (\<lambda>s. Inr (''sha-'' @ rev s))\<rparr>"

definition demo_world :: world where
  "demo_world = \<lparr>trace = [], stdout = [], files = [], next_tmp = 0\<rparr>"

definition demo_event :: "string list \<Rightarrow> event_dict" where
  "demo_event cids = \<lparr>ev_server = Some ''srv'',
      ev_collections = Some (map (CollectionRef ''bl'') cids),
      ev_bucket = None, ev_collection = None\<rparr>"

definition changes_event :: "string option \<Rightarrow> event_dict" where
  "changes_event cid = \<lparr>ev_server = Some ''srv'', ev_collections = None, ev_bucket = None, ev_collection = cid\<rparr>"

text \<open>The state of \<^verbatim>\<open>validate_signature\<close> on the sample service after the collection
  \<open>addons\<close> has been looked at first.\<close>

definition after_addons :: "locals \<times> world" where
  "after_addons =
     (\<lparr>exception = None, messages = [''Looking at /bl/addons: '', ''Signature OK''], f_tmp = Some 0\<rparr>,
      \<lparr>trace = [Remote (GetCollection (Client ''srv'' ''bl'' ''addons'' None)),
                Remote (GetRecords (Client ''srv'' ''bl'' ''addons'' None) (Some ''-last_modified'')),
                Remote (GetRecordsTimestamp (Client ''srv'' ''bl'' ''addons'' None) None),
                CanonicalJson (JArr [demo_entry ''addons'' 100, demo_entry ''plugins'' 100]) (JStr ''ts-addons''),
                ComputeHash ''canon-ts-addons'',
                Verify (Some ''addons'') ''canon-ts-addons''
                  (JObj [(''public_key'', JStr ''addons''), (''signature'', JStr ''c2ln'')])],
       stdout = ''Looking at /bl/addons: Signature OK'' @ NL, files = [], next_tmp = 1\<rparr>)"

section \<open>Facts about the pieces of validate_signature\<close>

lemma filter_file_write:
  "filter (\<lambda>kv. fst kv \<noteq> n) (file_write n s fs) = filter (\<lambda>kv. fst kv \<noteq> n) fs"
  by (induction fs) (auto simp: file_write_def)

lemma fst_file_write: "fst ` set (file_write n s fs) = fst ` set fs"
  by (induction fs) (auto simp: file_write_def)

lemma vs_steps_frame:
  assumes "vs_steps env cl w = (r, w')"
  shows "stdout w' = stdout w \<and> files w' = files w \<and> next_tmp w' = next_tmp w
       \<and> collections_fetched (trace w') = collections_fetched (trace w) @ [cl]"
  using assms
  by (auto simp: vs_steps_def call_remote_def call_canonical_json_def call_compute_hash_def
        collections_fetched_def split: sum.splits)

lemma vs_try_tmp_error:
  "tmp_error env (next_tmp w) = Some e \<Longrightarrow> vs_try env s sg (L, w) = (Some e, L, w)"
  by (simp add: vs_try_def)

lemma vs_try_staged:
  assumes "tmp_error env (next_tmp w) = None" "vs_try env s sg (L, w) = (r, L', w')"
  shows "f_tmp L' = Some (next_tmp w) \<and> next_tmp w \<in> fst ` set (files w')
       \<and> filter (\<lambda>kv. fst kv \<noteq> next_tmp w) (files w') = filter (\<lambda>kv. fst kv \<noteq> next_tmp w) (files w)
       \<and> exception L' = exception L
       \<and> messages L' = messages L @ (if r = None then [''Signature OK''] else [])
       \<and> collections_fetched (trace w') = collections_fetched (trace w)"
  using assms
  by (auto simp: vs_try_def Let_def call_verify_def py_print_def filter_file_write fst_file_write
        collections_fetched_def split: sum.splits option.splits)

lemma vs_try_None:
  "vs_try env s sg (L, w) = (None, L', w') \<Longrightarrow> tmp_error env (next_tmp w) = None"
  by (auto simp: vs_try_def split: option.splits)

lemma vs_try_messages:
  "vs_try env s sg (L, w) = (Some e, L', w') \<Longrightarrow> messages L' = messages L"
  by (auto simp: vs_try_def Let_def call_verify_def split: sum.splits option.splits)

lemma vs_try_trace:
  "vs_try env s sg (L, w) = (r, L', w') \<Longrightarrow> trace w' = trace w \<or> (\<exists>k. trace w' = trace w @ [Verify k s sg])"
  by (auto simp: vs_try_def Let_def call_verify_def py_print_def split: sum.splits option.splits)

lemma vs_finally_locals: "vs_finally (L, w) = (r, L', w') \<Longrightarrow> L' = L"
  by (auto simp: vs_finally_def split: option.splits sum.splits)

lemma vs_finally_trace: "vs_finally (L, w) = (r, L', w') \<Longrightarrow> trace w' = trace w"
  by (auto simp: vs_finally_def os_unlink_def split: option.splits sum.splits if_splits)

lemma vs_begin_eq:
  "vs_begin env cl (L, w) = (L\<lparr>messages := messages L @ [looking_at env cl]\<rparr>, py_print (looking_at env cl) [] w)"
  by (simp add: vs_begin_def)

lemma os_unlink_staged:
  "n \<in> fst ` set (files w) \<Longrightarrow> os_unlink n w = Inr (w\<lparr>files := filter (\<lambda>kv. fst kv \<noteq> n) (files w)\<rparr>)"
  by (simp add: os_unlink_def)

lemma vs_iteration_escaped:
  assumes "vs_verdict env srv c (L, w) = Escaped e"
  shows "\<exists>w'. vs_iteration env srv c (L, w)
            = (Some e, L\<lparr>messages := messages L @ [looking_at env (vs_client srv c)]\<rparr>, w')
          \<and> collections_fetched (trace w') = collections_fetched (trace w) @ [vs_client srv c]
          \<and> files w' = files w"
proof -
  obtain r w1 where st: "vs_steps env (vs_client srv c) (py_print (looking_at env (vs_client srv c)) [] w) = (r, w1)"
    by (cases "vs_steps env (vs_client srv c) (py_print (looking_at env (vs_client srv c)) [] w)") auto
  from assms st have r: "r = Inl e"
    by (auto simp: vs_verdict_def vs_begin_eq split: sum.splits option.splits prod.splits if_splits)
  from vs_steps_frame [OF st] have "collections_fetched (trace w1) = collections_fetched (trace w) @ [vs_client srv c]"
    "files w1 = files w"
    by (simp_all add: py_print_def)
  with st r show ?thesis
    by (simp add: vs_iteration_def vs_begin_eq)
qed

lemma vs_iteration_tried:
  assumes v: "vs_verdict env srv c (L, w) = v" and nv: "\<forall>e. v \<noteq> Escaped e"
    and tmp: "tmp_error env (next_tmp w) = None"
  shows "\<exists>L' w'. vs_iteration env srv c (L, w)
             = ((case v of Uncaught e \<Rightarrow> Some e | _ \<Rightarrow> None), L', w')
          \<and> f_tmp L' = Some (next_tmp w)
          \<and> files w' = filter (\<lambda>kv. fst kv \<noteq> next_tmp w) (files w)
          \<and> exception L' = (case v of Failed e t s h \<Rightarrow> Some e | _ \<Rightarrow> exception L)
          \<and> messages L' = messages L @ looking_at env (vs_client srv c) #
               (case v of Failed e t s h \<Rightarrow> ko_message env t s h
                  | Passed \<Rightarrow> [''Signature OK''] | _ \<Rightarrow> [])
          \<and> collections_fetched (trace w') = collections_fetched (trace w) @ [vs_client srv c]"
proof -
  let ?cl = "vs_client srv c"
  let ?L0 = "L\<lparr>messages := messages L @ [looking_at env ?cl]\<rparr>"
  obtain r w1 where st: "vs_steps env ?cl (py_print (looking_at env ?cl) [] w) = (r, w1)"
    by (cases "vs_steps env ?cl (py_print (looking_at env ?cl) [] w)") auto
  from v nv st obtain t s h sg where r: "r = Inr (t, s, h, sg)"
    by (cases r) (auto simp: vs_verdict_def vs_begin_eq)
  from vs_steps_frame [OF st] have fr: "files w1 = files w" "next_tmp w1 = next_tmp w"
    "collections_fetched (trace w1) = collections_fetched (trace w) @ [?cl]"
    by (simp_all add: py_print_def)
  obtain x L2 w2 where tr: "vs_try env s sg (?L0, w1) = (x, L2, w2)"
    by (cases "vs_try env s sg (?L0, w1)") auto
  from tmp fr have tmp1: "tmp_error env (next_tmp w1) = None" by simp
  note stg = vs_try_staged [OF tmp1 tr]
  from v st r tr have vx: "v = (case x of None \<Rightarrow> Passed
      | Some e \<Rightarrow> if is_Exception e then Failed e t s h else Uncaught e)"
    by (auto simp: vs_verdict_def vs_begin_eq split: option.splits)
  show ?thesis
  proof (cases x)
    case None
    with st r tr stg fr vx show ?thesis
      by (simp add: vs_iteration_def vs_begin_eq vs_finally_def os_unlink_staged)
  next
    case (Some e)
    show ?thesis
    proof (cases "is_Exception e")
      case True
      with Some st r tr stg fr vx show ?thesis
        by (simp add: vs_iteration_def vs_begin_eq vs_finally_def vs_except_def Let_def
              py_print_def os_unlink_def)
    next
      case False
      with Some st r tr stg fr vx show ?thesis
        by (simp add: vs_iteration_def vs_begin_eq vs_finally_def os_unlink_staged)
    qed
  qed
qed

lemma last_caught_step:
  "last_caught x (v # vs) = last_caught (case v of Failed e t s h \<Rightarrow> Some e | _ \<Rightarrow> x) vs"
  by (cases v) simp_all

lemma entry_of_step:
  "\<not> escaped v \<Longrightarrow> entry_of env srv (c, v) = looking_at env (vs_client srv c) #
     (case v of Failed e t s h \<Rightarrow> ko_message env t s h | Passed \<Rightarrow> [''Signature OK''] | _ \<Rightarrow> [])"
  by (cases v) simp_all

lemma vs_loop_run:
  assumes "\<forall>v\<in>set (vs_verdicts env srv cs (L, w)). \<not> escaped v" "\<forall>n. tmp_error env n = None"
  shows "\<exists>L' w'. vs_loop env srv cs (L, w) = (None, L', w')
       \<and> length (vs_verdicts env srv cs (L, w)) = length cs
       \<and> exception L' = last_caught (exception L) (vs_verdicts env srv cs (L, w))
       \<and> messages L' = messages L @ concat (map (entry_of env srv) (zip cs (vs_verdicts env srv cs (L, w))))
       \<and> collections_fetched (trace w') = collections_fetched (trace w) @ map (vs_client srv) cs"
  using assms
proof (induction cs arbitrary: L w)
  case Nil
  then show ?case by simp
next
  case (Cons c cs)
  let ?v = "vs_verdict env srv c (L, w)"
  from Cons.prems(1) have ne: "\<not> escaped ?v" by simp
  then have nE: "\<forall>e. ?v \<noteq> Escaped e" and nU: "\<forall>e. ?v \<noteq> Uncaught e" by auto
  from Cons.prems(2) have tmp: "tmp_error env (next_tmp w) = None" by simp
  from nU have res: "(case ?v of Uncaught e \<Rightarrow> Some e | _ \<Rightarrow> None) = None"
    by (cases ?v) auto
  from vs_iteration_tried [OF refl nE tmp] obtain L1 w1
    where it: "vs_iteration env srv c (L, w) = (None, L1, w1)"
      and ex: "exception L1 = (case ?v of Failed e t s h \<Rightarrow> Some e | _ \<Rightarrow> exception L)"
      and ms: "messages L1 = messages L @ looking_at env (vs_client srv c) #
               (case ?v of Failed e t s h \<Rightarrow> ko_message env t s h
                  | Passed \<Rightarrow> [''Signature OK''] | _ \<Rightarrow> [])"
      and tr: "collections_fetched (trace w1) = collections_fetched (trace w) @ [vs_client srv c]"
    unfolding res by blast
  from it have vs: "vs_verdicts env srv (c # cs) (L, w) = ?v # vs_verdicts env srv cs (L1, w1)"
    by simp
  from Cons.prems(1) it have "\<forall>v\<in>set (vs_verdicts env srv cs (L1, w1)). \<not> escaped v"
    by simp
  from Cons.IH [OF this Cons.prems(2)] obtain L' w'
    where l: "vs_loop env srv cs (L1, w1) = (None, L', w')"
      and len: "length (vs_verdicts env srv cs (L1, w1)) = length cs"
      and ex': "exception L' = last_caught (exception L1) (vs_verdicts env srv cs (L1, w1))"
      and ms': "messages L' = messages L1 @ concat (map (entry_of env srv) (zip cs (vs_verdicts env srv cs (L1, w1))))"
      and tr': "collections_fetched (trace w') = collections_fetched (trace w1) @ map (vs_client srv) cs"
    by blast
  from it l have "vs_loop env srv (c # cs) (L, w) = (None, L', w')" by simp
  moreover from len have "length (vs_verdicts env srv (c # cs) (L, w)) = length (c # cs)"
    unfolding vs by simp
  moreover from ex ex' have "exception L' = last_caught (exception L) (vs_verdicts env srv (c # cs) (L, w))"
    unfolding vs last_caught_step by simp
  moreover from ms ms' have "messages L' = messages L
      @ concat (map (entry_of env srv) (zip (c # cs) (vs_verdicts env srv (c # cs) (L, w))))"
    unfolding vs by (simp add: entry_of_step [OF ne])
  moreover from tr tr' have "collections_fetched (trace w') = collections_fetched (trace w)
      @ map (vs_client srv) (c # cs)"
    by simp
  ultimately show ?case by blast
qed

lemma vs_loop_append:
  "vs_loop env srv (xs @ ys) S =
     (case vs_loop env srv xs S of (None, S') \<Rightarrow> vs_loop env srv ys S' | (Some e, S') \<Rightarrow> (Some e, S'))"
  by (induction xs arbitrary: S) (auto split: prod.splits option.splits)

lemma sublist_prepend: "sublist x ys \<Longrightarrow> sublist x (ps @ ys)"
  by (simp add: sublist_append)

lemma sublist_join: "x \<in> set xs \<Longrightarrow> sublist x (join sep xs)"
proof (induction sep xs rule: join.induct)
  case (1 sep)
  then show ?case by simp
next
  case (2 sep y)
  then show ?case by simp
next
  case (3 sep a b ys)
  show ?case
  proof (cases "x = a")
    case True
    then show ?thesis by simp
  next
    case False
    with 3 have "sublist x (join sep (b # ys))" by simp
    then have "sublist x ((a @ sep) @ join sep (b # ys))"
      by (rule sublist_prepend)
    then show ?thesis by simp
  qed
qed

lemma sublist_in_line: "line \<in> set xs \<Longrightarrow> sublist x line \<Longrightarrow> sublist x (pre @ join sep xs)"
  using sublist_join [of line xs sep] sublist_prepend sublist_order.order_trans by blast

lemma failed_lines_in_messages:
  assumes "length cs = length vs" "Failed e t s h \<in> set vs"
  shows "set (ko_message env t s h) \<subseteq> set (concat (map (entry_of env srv) (zip cs vs)))"
  using assms by (induction cs vs rule: list_induct2) auto

lemma last_caught_Some: "last_caught (Some e) vs \<noteq> None"
  by (induction "Some e" vs arbitrary: e rule: last_caught.induct) auto

lemma last_caught_failed: "Failed e t s h \<in> set vs \<Longrightarrow> last_caught x vs \<noteq> None"
  by (induction x vs rule: last_caught.induct) (auto simp: last_caught_Some)

lemma last_caught_passed: "\<forall>v\<in>set vs. v = Passed \<Longrightarrow> last_caught x vs = x"
  by (induction x vs rule: last_caught.induct) auto

lemma last_caught_append: "last_caught x (us @ vs) = last_caught (last_caught x us) vs"
  by (induction x us rule: last_caught.induct) auto

section \<open>The sample service, evaluated\<close>

lemma demo_env_sel:
  "remote demo_env = demo_remote"
  "get_endpoint demo_env cl name = ''/'' @ cl_bucket cl @ ''/'' @ cl_collection cl"
  "canonical_json demo_env records timestamp = Inr (''canon-'' @ (case timestamp of JStr s \<Rightarrow> s | _ \<Rightarrow> ''?''))"
  "compute_hash demo_env s = Inr (''sha-'' @ s)"
  "verify demo_env key s sg = (if key = Some ''addons'' then None
                 else if key = Some ''halt'' then Some (Exc ''SystemExit'' ''1'')
                 else Some (Exc ''BadSignatureError'' (''bad '' @ s)))"
  "tmp_error demo_env n = None"
  "write_error demo_env n = None"
  "close_error demo_env n = None"
  "utc_strftime demo_env ms = Inr ''1970-01-01 00:00:00 UTC''"
  "getenv demo_env name = (if name = ''REFRESH_SIGNATURE_AUTH'' then Some ''user:sec:ret'' else None)"
  by (simp_all add: demo_env_def)

lemma plain_env_sel:
  "remote plain_env = demo_remote"
  "get_endpoint plain_env cl name = ''/'' @ cl_bucket cl @ ''/'' @ cl_collection cl"
  "canonical_json plain_env records timestamp
     = Inr (''bytes-'' @ (case timestamp of JStr s \<Rightarrow> map (\<lambda>c. CHR ''x'') s | _ \<Rightarrow> ''?''))"
  "compute_hash plain_env s = Inr (''sha-'' @ rev s)"
  "verify plain_env key s sg = (if key = Some ''addons'' then None
                 else if key = Some ''halt'' then Some (Exc ''SystemExit'' ''1'')
                 else Some (Exc ''BadSignatureError'' (''bad '' @ s)))"
  "tmp_error plain_env n = None"
  "write_error plain_env n = None"
  "close_error plain_env n = None"
  by (simp_all add: plain_env_def demo_env_def)

lemmas demo_defs = demo_env_sel demo_remote_def demo_world_def demo_event_def demo_entry_def

lemmas eval_defs = vs_iteration_def vs_begin_def vs_steps_def vs_try_def vs_except_def vs_finally_def
  vs_client_def looking_at_def call_remote_def call_canonical_json_def call_compute_hash_def
  call_verify_def py_print_def os_unlink_def file_write_def ko_message_def vs_init_def
  event_collections_def vs_verdict_def Let_def NL_def backquote_def is_Exception_def base_only_def

lemmas rs_eval = rs_iteration_def rs_client_def rs_looking_at_def rs_trigger_def call_remote_def
  py_print_def status_line_def timestamp_to_date_def to_sign_def Let_def NL_def show_int_def
  show_nat.simps

lemmas vcc_eval = vcc_registry_def vcc_client_def vcc_iteration_def vcc_fetch_def call_remote_def
  py_print_def looking_at_def etag_ok_def etag_not_ok_def etag_differs_def entry_read_def
  timestamps_requested_def Let_def NL_def show_int_def show_nat.simps

lemma demo_verdicts:
  "vs_verdicts demo_env ''srv'' (map (CollectionRef ''bl'') [''certs'', ''addons'', ''plugins'', ''addons''])
     (vs_init, demo_world)
   = [Failed (Exc ''BadSignatureError'' ''bad canon-ts-certs'') (JStr ''ts-certs'') ''canon-ts-certs'' ''sha-canon-ts-certs'',
      Passed,
      Failed (Exc ''BadSignatureError'' ''bad canon-ts-plugins'') (JStr ''ts-plugins'') ''canon-ts-plugins'' ''sha-canon-ts-plugins'',
      Passed]"
  by (simp add: demo_defs eval_defs)

lemma plain_verdicts:
  "vs_verdicts plain_env ''srv'' (map (CollectionRef ''bl'') [''certs'', ''addons'', ''plugins''])
     (vs_init, demo_world)
   = [Failed (Exc ''BadSignatureError'' ''bad bytes-xxxxxxxx'') (JStr ''ts-certs'') ''bytes-xxxxxxxx'' ''sha-xxxxxxxx-setyb'',
      Passed,
      Failed (Exc ''BadSignatureError'' ''bad bytes-xxxxxxxxxx'') (JStr ''ts-plugins'') ''bytes-xxxxxxxxxx'' ''sha-xxxxxxxxxx-setyb'']"
  by (simp add: plain_env_sel demo_remote_def demo_world_def demo_entry_def eval_defs)

lemma demo_certs: "vs_verdict demo_env ''srv'' (CollectionRef ''bl'' ''certs'') (vs_init, demo_world)
    = Failed (Exc ''BadSignatureError'' ''bad canon-ts-certs'') (JStr ''ts-certs'') ''canon-ts-certs'' ''sha-canon-ts-certs''"
  by (simp add: demo_defs eval_defs)

lemma demo_nokey: "vs_verdict demo_env ''srv'' (CollectionRef ''bl'' ''nokey'') (vs_init, demo_world)
    = Failed (KeyError ''public_key'') (JStr ''ts-nokey'') ''canon-ts-nokey'' ''sha-canon-ts-nokey''"
  by (simp add: demo_defs eval_defs KeyError_def)

lemma demo_addons: "vs_verdict demo_env ''srv'' (CollectionRef ''bl'' ''addons'') (vs_init, demo_world)
    = Passed"
  by (simp add: demo_defs eval_defs)

lemma demo_halt: "vs_verdict demo_env ''srv'' (CollectionRef ''bl'' ''halt'') (vs_init, demo_world)
    = Uncaught (Exc ''SystemExit'' ''1'')"
  by (simp add: demo_defs eval_defs)

lemma demo_reach:
  "vs_loop demo_env ''srv'' [CollectionRef ''bl'' ''addons''] (vs_init, demo_world) = (None, after_addons)"
  by (simp add: demo_defs eval_defs after_addons_def)

lemma demo_then_gone: "vs_verdict demo_env ''srv'' (CollectionRef ''bl'' ''gone'') after_addons
    = Escaped (Exc ''KintoException'' ''404 - Not Found'')"
  by (simp add: demo_defs eval_defs after_addons_def)

lemma demo_then_certs: "vs_verdict demo_env ''srv'' (CollectionRef ''bl'' ''certs'') after_addons
    = Failed (Exc ''BadSignatureError'' ''bad canon-ts-certs'') (JStr ''ts-certs'') ''canon-ts-certs'' ''sha-canon-ts-certs''"
  by (simp add: demo_defs eval_defs after_addons_def)

lemma demo_then_halt: "vs_verdict demo_env ''srv'' (CollectionRef ''bl'' ''halt'') after_addons
    = Uncaught (Exc ''SystemExit'' ''1'')"
  by (simp add: demo_defs eval_defs after_addons_def)

lemma demo_signed:
  "remote demo_env (trace demo_world) (GetCollection (rs_client ''srv'' au (CollectionRef ''bl'' ''addons'')))
     = Inr (JObj [(''data'', JObj [(''status'', JStr ''signed''), (''last_modified'', JInt 500),
            (''signature'', JObj [(''public_key'', JStr ''addons''), (''signature'', JStr ''c2ln'')])])])"
  by (simp add: demo_defs rs_client_def)

lemma demo_wip:
  "remote demo_env (trace demo_world) (GetCollection (rs_client ''srv'' au (CollectionRef ''staging'' ''addons'')))
     = Inr (JObj [(''data'', JObj [(''status'', JStr ''work-in-progress''), (''last_modified'', JInt 500),
            (''signature'', JObj [(''public_key'', JStr ''addons''), (''signature'', JStr ''c2ln'')])])])"
  by (simp add: demo_defs rs_client_def)

lemma demo_patch:
  "remote demo_env history (PatchCollection cl d)
     = Inr (JObj [(''data'', JObj [(''status'', JStr ''to-sign''), (''last_modified'', JInt 600)])])"
  by (simp add: demo_defs)

lemma demo_date: "timestamp_to_date demo_env (JInt n) = Inr ''1970-01-01 00:00:00 UTC''"
  by (simp add: timestamp_to_date_def demo_env_sel)

section \<open>validate_signature: which exceptions are recorded\<close>

text \<open>
  C1, as amended. Let the run reach the collection \<open>c\<close> of the list. An exception raised
  while the collection, the records or the timestamp are fetched, while the content is
  serialised or hashed, or while the signature is read (lines 57 to 71) is not caught:
  \<^verbatim>\<open>validate_signature\<close> ends with that exception, and \<open>c\<close> is the last collection it
  has asked for. An exception raised in the \<^verbatim>\<open>try\<close> statement once the temporary file
  exists (reading or writing the key, verifying) is recorded if it is an \<^verbatim>\<open>Exception\<close>,
  which is what line 85 catches: \<^verbatim>\<open>exception\<close> holds it, the four lines of the failure
  are appended to \<^verbatim>\<open>messages\<close>, and the loop goes on with the collections after \<open>c\<close>.
  If it is no \<^verbatim>\<open>Exception\<close> (\<^verbatim>\<open>SystemExit\<close>, \<^verbatim>\<open>KeyboardInterrupt\<close>), it is not
  recorded and \<^verbatim>\<open>validate_signature\<close> ends with it.
\<close>

theorem only_verification_exceptions_are_recorded:
  assumes srv: "ev_server event = Some server_url"
    and cs: "event_collections event = before @ c # cs"
    and reach: "vs_loop env server_url before (vs_init, w0) = (None, L, w)"
  shows "(vs_verdict env server_url c (L, w) = Escaped e \<longrightarrow>
            (\<exists>w'. validate_signature env event w0 = (Inl e, w')
               \<and> collections_fetched (trace w') = collections_fetched (trace w) @ [vs_client server_url c]))
       \<and> (vs_verdict env server_url c (L, w) = Failed e t s h \<and> tmp_error env (next_tmp w) = None \<longrightarrow>
            is_Exception e
            \<and> (\<exists>L' w'. vs_iteration env server_url c (L, w) = (None, L', w')
               \<and> exception L' = Some e
               \<and> messages L' = messages L @ looking_at env (vs_client server_url c) # ko_message env t s h
               \<and> vs_loop env server_url (event_collections event) (vs_init, w0)
                    = vs_loop env server_url cs (L', w')))
       \<and> (vs_verdict env server_url c (L, w) = Uncaught e \<and> tmp_error env (next_tmp w) = None \<longrightarrow>
            \<not> is_Exception e
            \<and> (\<exists>L' w'. vs_iteration env server_url c (L, w) = (Some e, L', w')
               \<and> exception L' = exception L
               \<and> messages L' = messages L @ [looking_at env (vs_client server_url c)]
               \<and> validate_signature env event w0 = (Inl e, w')))"
proof (intro conjI impI)
  assume "vs_verdict env server_url c (L, w) = Escaped e"
  from vs_iteration_escaped [OF this] obtain w'
    where it: "vs_iteration env server_url c (L, w)
            = (Some e, L\<lparr>messages := messages L @ [looking_at env (vs_client server_url c)]\<rparr>, w')"
      and tr: "collections_fetched (trace w') = collections_fetched (trace w) @ [vs_client server_url c]"
    by blast
  from it reach have "vs_loop env server_url (before @ c # cs) (vs_init, w0)
      = (Some e, L\<lparr>messages := messages L @ [looking_at env (vs_client server_url c)]\<rparr>, w')"
    by (simp add: vs_loop_append)
  with srv cs have "validate_signature env event w0 = (Inl e, w')"
    by (simp add: validate_signature_def)
  with tr show "\<exists>w'. validate_signature env event w0 = (Inl e, w')
      \<and> collections_fetched (trace w') = collections_fetched (trace w) @ [vs_client server_url c]"
    by blast
next
  assume a: "vs_verdict env server_url c (L, w) = Failed e t s h \<and> tmp_error env (next_tmp w) = None"
  then show "is_Exception e"
    by (auto simp: vs_verdict_def Let_def split: prod.splits sum.splits option.splits if_splits)
next
  assume a: "vs_verdict env server_url c (L, w) = Failed e t s h \<and> tmp_error env (next_tmp w) = None"
  then have ne: "\<forall>e'. Failed e t s h \<noteq> Escaped e'" by simp
  from a vs_iteration_tried [of env server_url c L w "Failed e t s h", OF _ ne]
  obtain L' w' where it: "vs_iteration env server_url c (L, w) = (None, L', w')"
    and ex: "exception L' = Some e"
    and ms: "messages L' = messages L @ looking_at env (vs_client server_url c) # ko_message env t s h"
    by auto
  from it reach have "vs_loop env server_url (before @ c # cs) (vs_init, w0) = vs_loop env server_url cs (L', w')"
    by (simp add: vs_loop_append)
  with it ex ms cs
  show "\<exists>L' w'. vs_iteration env server_url c (L, w) = (None, L', w')
         \<and> exception L' = Some e
         \<and> messages L' = messages L @ looking_at env (vs_client server_url c) # ko_message env t s h
         \<and> vs_loop env server_url (event_collections event) (vs_init, w0) = vs_loop env server_url cs (L', w')"
    by simp
next
  assume a: "vs_verdict env server_url c (L, w) = Uncaught e \<and> tmp_error env (next_tmp w) = None"
  then show "\<not> is_Exception e"
    by (auto simp: vs_verdict_def Let_def split: prod.splits sum.splits option.splits if_splits)
next
  assume a: "vs_verdict env server_url c (L, w) = Uncaught e \<and> tmp_error env (next_tmp w) = None"
  then have ne: "\<forall>e'. Uncaught e \<noteq> Escaped e'" by simp
  from a vs_iteration_tried [of env server_url c L w "Uncaught e", OF _ ne]
  obtain L' w' where it: "vs_iteration env server_url c (L, w) = (Some e, L', w')"
    and ex: "exception L' = exception L"
    and ms: "messages L' = messages L @ [looking_at env (vs_client server_url c)]"
    by auto
  from it reach have "vs_loop env server_url (before @ c # cs) (vs_init, w0) = (Some e, L', w')"
    by (simp add: vs_loop_append)
  with srv cs have "validate_signature env event w0 = (Inl e, w')"
    by (simp add: validate_signature_def)
  with it ex ms
  show "\<exists>L' w'. vs_iteration env server_url c (L, w) = (Some e, L', w')
         \<and> exception L' = exception L
         \<and> messages L' = messages L @ [looking_at env (vs_client server_url c)]
         \<and> validate_signature env event w0 = (Inl e, w')"
    by blast
qed

text \<open>On the sample service, after \<open>addons\<close>: \<open>gone\<close> ends the run, the failure of
  \<open>certs\<close> is recorded and the loop goes on, \<open>halt\<close> ends the run unrecorded.\<close>

theorem only_verification_exceptions_are_recorded_witness:
  "(\<exists>w'. validate_signature demo_env (demo_event [''addons'', ''gone'', ''certs'']) demo_world
       = (Inl (Exc ''KintoException'' ''404 - Not Found''), w')
      \<and> collections_fetched (trace w')
           = [Client ''srv'' ''bl'' ''addons'' None, Client ''srv'' ''bl'' ''gone'' None])
   \<and> is_Exception (Exc ''BadSignatureError'' ''bad canon-ts-certs'')
   \<and> (\<exists>L' w'. vs_iteration demo_env ''srv'' (CollectionRef ''bl'' ''certs'') after_addons = (None, L', w')
      \<and> exception L' = Some (Exc ''BadSignatureError'' ''bad canon-ts-certs'')
      \<and> messages L' = [''Looking at /bl/addons: '', ''Signature OK'', ''Looking at /bl/certs: '']
           @ ko_message demo_env (JStr ''ts-certs'') ''canon-ts-certs'' ''sha-canon-ts-certs''
      \<and> vs_loop demo_env ''srv'' (event_collections (demo_event [''addons'', ''certs'', ''gone''])) (vs_init, demo_world)
           = vs_loop demo_env ''srv'' [CollectionRef ''bl'' ''gone''] (L', w'))
   \<and> \<not> is_Exception (Exc ''SystemExit'' ''1'')
   \<and> (\<exists>L' w'. vs_iteration demo_env ''srv'' (CollectionRef ''bl'' ''halt'') after_addons
           = (Some (Exc ''SystemExit'' ''1''), L', w')
      \<and> exception L' = None
      \<and> messages L' = [''Looking at /bl/addons: '', ''Signature OK'', ''Looking at /bl/halt: '']
      \<and> validate_signature demo_env (demo_event [''addons'', ''halt'', ''certs'']) demo_world
           = (Inl (Exc ''SystemExit'' ''1''), w'))"
proof -
  obtain L w where S: "after_addons = (L, w)" by (cases after_addons)
  from S have Lw: "messages L = [''Looking at /bl/addons: '', ''Signature OK'']" "next_tmp w = 1"
    "collections_fetched (trace w) = [Client ''srv'' ''bl'' ''addons'' None]" "exception L = None"
    by (auto simp: after_addons_def collections_fetched_def)
  have tmp: "tmp_error demo_env (next_tmp w) = None" by (simp add: demo_env_sel)
  have srv: "ev_server (demo_event [''addons'', ''gone'', ''certs'']) = Some ''srv''"
    "ev_server (demo_event [''addons'', ''certs'', ''gone'']) = Some ''srv''"
    "ev_server (demo_event [''addons'', ''halt'', ''certs'']) = Some ''srv''"
    by (simp_all add: demo_event_def)
  have cs1: "event_collections (demo_event [''addons'', ''gone'', ''certs''])
      = [CollectionRef ''bl'' ''addons''] @ CollectionRef ''bl'' ''gone'' # [CollectionRef ''bl'' ''certs'']"
    by (simp add: demo_event_def event_collections_def)
  have cs2: "event_collections (demo_event [''addons'', ''certs'', ''gone''])
      = [CollectionRef ''bl'' ''addons''] @ CollectionRef ''bl'' ''certs'' # [CollectionRef ''bl'' ''gone'']"
    by (simp add: demo_event_def event_collections_def)
  have cs3: "event_collections (demo_event [''addons'', ''halt'', ''certs''])
      = [CollectionRef ''bl'' ''addons''] @ CollectionRef ''bl'' ''halt'' # [CollectionRef ''bl'' ''certs'']"
    by (simp add: demo_event_def event_collections_def)
  have la: "looking_at demo_env (vs_client ''srv'' (CollectionRef ''bl'' ''certs'')) = ''Looking at /bl/certs: ''"
    "looking_at demo_env (vs_client ''srv'' (CollectionRef ''bl'' ''halt'')) = ''Looking at /bl/halt: ''"
    "vs_client ''srv'' (CollectionRef ''bl'' ''gone'') = Client ''srv'' ''bl'' ''gone'' None"
    by (simp_all add: looking_at_def vs_client_def demo_env_sel)
  from only_verification_exceptions_are_recorded
         [OF srv(1) cs1 demo_reach [unfolded S], THEN conjunct1, rule_format, OF demo_then_gone [unfolded S]]
  have a: "\<exists>w'. validate_signature demo_env (demo_event [''addons'', ''gone'', ''certs'']) demo_world
       = (Inl (Exc ''KintoException'' ''404 - Not Found''), w')
      \<and> collections_fetched (trace w')
           = [Client ''srv'' ''bl'' ''addons'' None, Client ''srv'' ''bl'' ''gone'' None]"
    unfolding Lw la by simp
  from only_verification_exceptions_are_recorded
         [OF srv(2) cs2 demo_reach [unfolded S], THEN conjunct2, THEN conjunct1, rule_format,
          OF conjI [OF demo_then_certs [unfolded S] tmp]]
  have b: "is_Exception (Exc ''BadSignatureError'' ''bad canon-ts-certs'')
      \<and> (\<exists>L' w'. vs_iteration demo_env ''srv'' (CollectionRef ''bl'' ''certs'') (L, w) = (None, L', w')
      \<and> exception L' = Some (Exc ''BadSignatureError'' ''bad canon-ts-certs'')
      \<and> messages L' = [''Looking at /bl/addons: '', ''Signature OK'', ''Looking at /bl/certs: '']
           @ ko_message demo_env (JStr ''ts-certs'') ''canon-ts-certs'' ''sha-canon-ts-certs''
      \<and> vs_loop demo_env ''srv'' (event_collections (demo_event [''addons'', ''certs'', ''gone''])) (vs_init, demo_world)
           = vs_loop demo_env ''srv'' [CollectionRef ''bl'' ''gone''] (L', w'))"
    unfolding Lw la by simp
  from only_verification_exceptions_are_recorded
         [OF srv(3) cs3 demo_reach [unfolded S], THEN conjunct2, THEN conjunct2, rule_format,
          OF conjI [OF demo_then_halt [unfolded S] tmp]]
  have c: "\<not> is_Exception (Exc ''SystemExit'' ''1'')
      \<and> (\<exists>L' w'. vs_iteration demo_env ''srv'' (CollectionRef ''bl'' ''halt'') (L, w)
           = (Some (Exc ''SystemExit'' ''1''), L', w')
      \<and> exception L' = None
      \<and> messages L' = [''Looking at /bl/addons: '', ''Signature OK'', ''Looking at /bl/halt: '']
      \<and> validate_signature demo_env (demo_event [''addons'', ''halt'', ''certs'']) demo_world
           = (Inl (Exc ''SystemExit'' ''1''), w'))"
    unfolding Lw la by simp
  from a b c show ?thesis unfolding S by blast
qed

text \<open>
  The claim as first stated (an exception of the fetch is recorded as a failure of the
  collection and the loop continues) fails: with the collections \<open>gone\<close> and \<open>addons\<close>
  the run ends with the exception of the fetch itself, and \<open>addons\<close> is never asked for.
\<close>

theorem fetch_exception_ends_the_run:
  "validate_signature demo_env (demo_event [''gone'', ''addons'']) demo_world
     = (Inl (Exc ''KintoException'' ''404 - Not Found''),
        \<lparr>trace = [Remote (GetCollection (Client ''srv'' ''bl'' ''gone'' None))],
         stdout = ''Looking at /bl/gone: '', files = [], next_tmp = 0\<rparr>)"
  by (simp add: validate_signature_def demo_defs eval_defs)

section \<open>validate_signature: every failure is reported\<close>

text \<open>
  C2, as amended. Take a run that no exception leaves: lines 57 to 71 raise for no
  collection, the \<^verbatim>\<open>try\<close> body raises nothing but what line 85 catches, and the
  temporary files can be created. If the verification of some collection fails, with
  computed hash \<open>h\<close> and timestamp \<open>t\<close>, then \<^verbatim>\<open>validate_signature\<close> raises a
  \<^verbatim>\<open>ValidationError\<close>; its message is the rendering of an exception, a colon, a newline
  and the recorded messages joined by newlines, and the line of the hash \<open>h\<close> and the
  line of the timestamp \<open>t\<close> are among these messages, so the message contains \<open>h\<close> and
  the rendering of \<open>t\<close>; and the run has asked the service for every collection of the
  list, once each and in order, whatever failed before.
\<close>

theorem validate_signature_reports_every_failure:
  assumes srv: "ev_server event = Some server_url"
    and fetches: "\<forall>v\<in>set (vs_verdicts env server_url (event_collections event) (vs_init, w)). \<not> escaped v"
    and tmp: "\<forall>n. tmp_error env n = None"
    and failed: "Failed e t s h \<in> set (vs_verdicts env server_url (event_collections event) (vs_init, w))"
  shows "\<exists>e' ms w'.
            validate_signature env event w
              = (Inl (ValidationError (exc_str e' @ '':'' @ NL @ join NL ms)), w')
          \<and> '' - Computed hash: '' @ backquote @ h @ backquote \<in> set ms
          \<and> '' - Collection timestamp: '' @ backquote @ py_str env t @ backquote \<in> set ms
          \<and> sublist h (exc_str e' @ '':'' @ NL @ join NL ms)
          \<and> sublist (py_str env t) (exc_str e' @ '':'' @ NL @ join NL ms)
          \<and> collections_fetched (trace w') = collections_fetched (trace w)
               @ map (vs_client server_url) (event_collections event)"
proof -
  let ?cs = "event_collections event"
  let ?vs = "vs_verdicts env server_url ?cs (vs_init, w)"
  from vs_loop_run [OF fetches tmp]
  obtain L' w' where l: "vs_loop env server_url ?cs (vs_init, w) = (None, L', w')"
    and len: "length ?vs = length ?cs"
    and ex: "exception L' = last_caught (exception vs_init) ?vs"
    and ms: "messages L' = messages vs_init @ concat (map (entry_of env server_url) (zip ?cs ?vs))"
    and tr: "collections_fetched (trace w') = collections_fetched (trace w)
      @ map (vs_client server_url) ?cs"
    by blast
  from ms have msgs: "messages L' = concat (map (entry_of env server_url) (zip ?cs ?vs))"
    by (simp add: vs_init_def)
  from failed_lines_in_messages [OF len [symmetric] failed, of env server_url] msgs
  have lines: "set (ko_message env t s h) \<subseteq> set (messages L')" by simp
  from ex last_caught_failed [OF failed] have exc: "exception L' \<noteq> None"
    by simp
  then obtain e' where e': "exception L' = Some e'" by auto
  let ?msg = "exc_str e' @ '':'' @ NL @ join NL (messages L')"
  have hl: "'' - Computed hash: '' @ backquote @ h @ backquote \<in> set (messages L')"
    using lines by (auto simp: ko_message_def)
  have tl: "'' - Collection timestamp: '' @ backquote @ py_str env t @ backquote \<in> set (messages L')"
    using lines by (auto simp: ko_message_def)
  have "sublist h ((exc_str e' @ '':'' @ NL) @ join NL (messages L'))"
  proof (rule sublist_in_line)
    show "'' - Computed hash: '' @ backquote @ h @ backquote \<in> set (messages L')"
      by (rule hl)
    show "sublist h ('' - Computed hash: '' @ backquote @ h @ backquote)"
      using sublist_appendI [of h "'' - Computed hash: '' @ backquote" backquote] by simp
  qed
  then have h: "sublist h ?msg" by simp
  have "sublist (py_str env t) ((exc_str e' @ '':'' @ NL) @ join NL (messages L'))"
  proof (rule sublist_in_line)
    show "'' - Collection timestamp: '' @ backquote @ py_str env t @ backquote \<in> set (messages L')"
      by (rule tl)
    show "sublist (py_str env t) ('' - Collection timestamp: '' @ backquote @ py_str env t @ backquote)"
      using sublist_appendI [of "py_str env t" "'' - Collection timestamp: '' @ backquote" backquote] by simp
  qed
  then have t: "sublist (py_str env t) ?msg" by simp
  from srv l e' have "validate_signature env event w = (Inl (ValidationError ?msg), w')"
    by (simp add: validate_signature_def)
  with hl tl h t tr show ?thesis by blast
qed

text \<open>On a sample service whose hashes and serialised contents do not hold the timestamps:
  the first and the third of three collections fail; the lines of both are among the
  messages, and all three collections are fetched.\<close>

theorem validate_signature_reports_every_failure_witness:
  "(\<exists>e' ms w'. validate_signature plain_env (demo_event [''certs'', ''addons'', ''plugins'']) demo_world
        = (Inl (ValidationError (exc_str e' @ '':'' @ NL @ join NL ms)), w')
      \<and> '' - Computed hash: '' @ backquote @ ''sha-xxxxxxxx-setyb'' @ backquote \<in> set ms
      \<and> '' - Collection timestamp: '' @ backquote @ ''ts-certs'' @ backquote \<in> set ms
      \<and> sublist ''sha-xxxxxxxx-setyb'' (exc_str e' @ '':'' @ NL @ join NL ms)
      \<and> sublist ''ts-certs'' (exc_str e' @ '':'' @ NL @ join NL ms)
      \<and> collections_fetched (trace w') =
           [Client ''srv'' ''bl'' ''certs'' None, Client ''srv'' ''bl'' ''addons'' None,
            Client ''srv'' ''bl'' ''plugins'' None])
   \<and> (\<exists>e' ms w'. validate_signature plain_env (demo_event [''certs'', ''addons'', ''plugins'']) demo_world
        = (Inl (ValidationError (exc_str e' @ '':'' @ NL @ join NL ms)), w')
      \<and> '' - Computed hash: '' @ backquote @ ''sha-xxxxxxxxxx-setyb'' @ backquote \<in> set ms
      \<and> '' - Collection timestamp: '' @ backquote @ ''ts-plugins'' @ backquote \<in> set ms
      \<and> sublist ''sha-xxxxxxxxxx-setyb'' (exc_str e' @ '':'' @ NL @ join NL ms)
      \<and> sublist ''ts-plugins'' (exc_str e' @ '':'' @ NL @ join NL ms))"
proof -
  let ?ev = "demo_event [''certs'', ''addons'', ''plugins'']"
  have cs: "event_collections ?ev = map (CollectionRef ''bl'') [''certs'', ''addons'', ''plugins'']"
    by (simp add: demo_event_def event_collections_def)
  have srv: "ev_server ?ev = Some ''srv''" by (simp add: demo_event_def)
  have run: "\<forall>v\<in>set (vs_verdicts plain_env ''srv'' (event_collections ?ev) (vs_init, demo_world)). \<not> escaped v"
    unfolding cs plain_verdicts by simp
  have tmp: "\<forall>n. tmp_error plain_env n = None" by (simp add: plain_env_sel)
  have f1: "Failed (Exc ''BadSignatureError'' ''bad bytes-xxxxxxxx'') (JStr ''ts-certs'') ''bytes-xxxxxxxx'' ''sha-xxxxxxxx-setyb''
      \<in> set (vs_verdicts plain_env ''srv'' (event_collections ?ev) (vs_init, demo_world))"
    unfolding cs plain_verdicts by simp
  have f3: "Failed (Exc ''BadSignatureError'' ''bad bytes-xxxxxxxxxx'') (JStr ''ts-plugins'') ''bytes-xxxxxxxxxx'' ''sha-xxxxxxxxxx-setyb''
      \<in> set (vs_verdicts plain_env ''srv'' (event_collections ?ev) (vs_init, demo_world))"
    unfolding cs plain_verdicts by simp
  have tr: "collections_fetched (trace demo_world) = []"
    by (simp add: demo_world_def collections_fetched_def)
  have py: "py_str plain_env (JStr ''ts-certs'') = ''ts-certs''"
    "py_str plain_env (JStr ''ts-plugins'') = ''ts-plugins''"
    by simp_all
  have cl: "map (vs_client ''srv'') (map (CollectionRef ''bl'') [''certs'', ''addons'', ''plugins''])
      = [Client ''srv'' ''bl'' ''certs'' None, Client ''srv'' ''bl'' ''addons'' None,
         Client ''srv'' ''bl'' ''plugins'' None]"
    by (simp add: vs_client_def)
  from validate_signature_reports_every_failure [OF srv run tmp f1]
  have a: "\<exists>e' ms w'. validate_signature plain_env ?ev demo_world
        = (Inl (ValidationError (exc_str e' @ '':'' @ NL @ join NL ms)), w')
      \<and> '' - Computed hash: '' @ backquote @ ''sha-xxxxxxxx-setyb'' @ backquote \<in> set ms
      \<and> '' - Collection timestamp: '' @ backquote @ ''ts-certs'' @ backquote \<in> set ms
      \<and> sublist ''sha-xxxxxxxx-setyb'' (exc_str e' @ '':'' @ NL @ join NL ms)
      \<and> sublist ''ts-certs'' (exc_str e' @ '':'' @ NL @ join NL ms)
      \<and> collections_fetched (trace w') =
           [Client ''srv'' ''bl'' ''certs'' None, Client ''srv'' ''bl'' ''addons'' None,
            Client ''srv'' ''bl'' ''plugins'' None]"
    unfolding cs tr py cl append_Nil .
  from validate_signature_reports_every_failure [OF srv run tmp f3]
  have b: "\<exists>e' ms w'. validate_signature plain_env ?ev demo_world
        = (Inl (ValidationError (exc_str e' @ '':'' @ NL @ join NL ms)), w')
      \<and> '' - Computed hash: '' @ backquote @ ''sha-xxxxxxxxxx-setyb'' @ backquote \<in> set ms
      \<and> '' - Collection timestamp: '' @ backquote @ ''ts-plugins'' @ backquote \<in> set ms
      \<and> sublist ''sha-xxxxxxxxxx-setyb'' (exc_str e' @ '':'' @ NL @ join NL ms)
      \<and> sublist ''ts-plugins'' (exc_str e' @ '':'' @ NL @ join NL ms)"
    unfolding cs tr py cl append_Nil by blast
  from a b show ?thesis by blast
qed

text \<open>
  The claim as first stated (whenever the verification of some collection fails, every
  collection is processed and a \<^verbatim>\<open>ValidationError\<close> is raised) fails: with the
  collections \<open>certs\<close>, \<open>gone\<close> and \<open>addons\<close> the verification of \<open>certs\<close> fails, then
  the fetch of \<open>gone\<close> raises; the run ends with that exception, not with a
  \<^verbatim>\<open>ValidationError\<close>, and \<open>addons\<close> is never asked for.
\<close>

theorem failure_then_fetch_exception_raises_no_validation_error:
  "vs_verdicts demo_env ''srv'' (map (CollectionRef ''bl'') [''certs'', ''gone'', ''addons'']) (vs_init, demo_world)
     = [Failed (Exc ''BadSignatureError'' ''bad canon-ts-certs'') (JStr ''ts-certs'') ''canon-ts-certs'' ''sha-canon-ts-certs'',
        Escaped (Exc ''KintoException'' ''404 - Not Found'')]
   \<and> fst (validate_signature demo_env (demo_event [''certs'', ''gone'', ''addons'']) demo_world)
     = Inl (Exc ''KintoException'' ''404 - Not Found'')
   \<and> collections_fetched (trace (snd (validate_signature demo_env (demo_event [''certs'', ''gone'', ''addons'']) demo_world)))
     = [Client ''srv'' ''bl'' ''certs'' None, Client ''srv'' ''bl'' ''gone'' None]"
  by (simp add: validate_signature_def collections_fetched_def demo_defs eval_defs)

section \<open>validate_signature: the prefix of the message\<close>

text \<open>
  C9. Take a run that no exception leaves: lines 57 to 71 raise for no collection, the
  \<^verbatim>\<open>try\<close> body raises nothing but what line 85 catches, and the temporary files can be
  created. If the last collection whose verification fails is caught with the
  exception \<open>e\<close>, the message of the \<^verbatim>\<open>ValidationError\<close> is the rendering of
  \<open>e\<close>, a colon and a newline, followed by all the messages of the run joined by
  newlines. The exceptions caught earlier do not appear but through the lines recorded
  for their collections.
\<close>

theorem validation_error_prefix_is_last_exception:
  assumes srv: "ev_server event = Some server_url"
    and fetches: "\<forall>v\<in>set (vs_verdicts env server_url (event_collections event) (vs_init, w)). \<not> escaped v"
    and tmp: "\<forall>n. tmp_error env n = None"
    and last: "vs_verdicts env server_url (event_collections event) (vs_init, w)
                 = earlier @ Failed e t s h # later"
    and later: "\<forall>v\<in>set later. v = Passed"
  shows "\<exists>w'. validate_signature env event w =
            (Inl (ValidationError (exc_str e @ '':'' @ NL @ join NL
               (concat (map (entry_of env server_url)
                  (zip (event_collections event) (earlier @ Failed e t s h # later)))))), w')"
proof -
  let ?cs = "event_collections event"
  from vs_loop_run [OF fetches tmp]
  obtain L' w' where l: "vs_loop env server_url ?cs (vs_init, w) = (None, L', w')"
    and eff: "exception L' = last_caught (exception vs_init) (vs_verdicts env server_url ?cs (vs_init, w))"
      "messages L' = messages vs_init @ concat (map (entry_of env server_url)
         (zip ?cs (vs_verdicts env server_url ?cs (vs_init, w))))"
    by blast
  from eff last have msgs: "messages L' = concat (map (entry_of env server_url)
      (zip ?cs (earlier @ Failed e t s h # later)))"
    by (simp add: vs_init_def)
  from eff last later have "exception L' = Some e"
    by (simp add: last_caught_append last_caught_passed)
  with srv l msgs show ?thesis
    by (simp add: validate_signature_def)
qed

text \<open>On the sample service: two failures, the message starts with the second one's text.\<close>

theorem validation_error_prefix_is_last_exception_witness:
  "\<exists>w'. validate_signature demo_env (demo_event [''certs'', ''addons'', ''plugins'', ''addons'']) demo_world
     = (Inl (ValidationError (''bad canon-ts-plugins'' @ '':'' @ NL @ join NL
          [''Looking at /bl/certs: '', ''Signature KO.'',
           '' - Computed hash: '' @ backquote @ ''sha-canon-ts-certs'' @ backquote,
           '' - Collection timestamp: '' @ backquote @ ''ts-certs'' @ backquote,
           '' - Serialized content: '' @ backquote @ ''canon-ts-certs'' @ backquote,
           ''Looking at /bl/addons: '', ''Signature OK'',
           ''Looking at /bl/plugins: '', ''Signature KO.'',
           '' - Computed hash: '' @ backquote @ ''sha-canon-ts-plugins'' @ backquote,
           '' - Collection timestamp: '' @ backquote @ ''ts-plugins'' @ backquote,
           '' - Serialized content: '' @ backquote @ ''canon-ts-plugins'' @ backquote,
           ''Looking at /bl/addons: '', ''Signature OK''])), w')"
proof -
  let ?ev = "demo_event [''certs'', ''addons'', ''plugins'', ''addons'']"
  have cs: "event_collections ?ev = map (CollectionRef ''bl'') [''certs'', ''addons'', ''plugins'', ''addons'']"
    by (simp add: demo_event_def event_collections_def)
  have srv: "ev_server ?ev = Some ''srv''" by (simp add: demo_event_def)
  have run: "\<forall>v\<in>set (vs_verdicts demo_env ''srv'' (event_collections ?ev) (vs_init, demo_world)). \<not> escaped v"
    unfolding cs demo_verdicts by simp
  have tmp: "\<forall>n. tmp_error demo_env n = None" by (simp add: demo_env_sel)
  have v: "vs_verdicts demo_env ''srv'' (event_collections ?ev) (vs_init, demo_world)
     = [Failed (Exc ''BadSignatureError'' ''bad canon-ts-certs'') (JStr ''ts-certs'') ''canon-ts-certs'' ''sha-canon-ts-certs'', Passed]
       @ Failed (Exc ''BadSignatureError'' ''bad canon-ts-plugins'') (JStr ''ts-plugins'') ''canon-ts-plugins'' ''sha-canon-ts-plugins''
       # [Passed]"
    unfolding cs demo_verdicts by simp
  have later: "\<forall>v\<in>set [Passed]. v = Passed" by simp
  from validation_error_prefix_is_last_exception [OF srv run tmp v later]
  show ?thesis unfolding cs
    by (simp add: demo_env_sel vs_client_def looking_at_def ko_message_def)
qed

section \<open>validate_signature: the temporary file\<close>

text \<open>
  C6. In an iteration that gets to the \<^verbatim>\<open>try\<close> statement and creates its temporary
  file, whatever happens then (the verification succeeds, fails, or any step raises), the
  file it created does not exist any more when the iteration ends: the files are those
  that existed before the iteration. The iteration ends normally, so that the run goes
  on, unless the \<^verbatim>\<open>try\<close> body raised an exception that line 85 does not catch; then
  that exception leaves the function, after the file has been deleted.
\<close>

theorem staged_key_file_is_deleted:
  assumes reach: "reaches_verification env server_url c (L, w)"
    and tmp: "tmp_error env (next_tmp w) = None"
  shows "\<exists>L' w'. vs_iteration env server_url c (L, w)
             = ((case vs_verdict env server_url c (L, w) of Uncaught e \<Rightarrow> Some e | v \<Rightarrow> None), L', w')
          \<and> f_tmp L' = Some (next_tmp w)
          \<and> next_tmp w \<notin> fst ` set (files w')
          \<and> files w' = filter (\<lambda>kv. fst kv \<noteq> next_tmp w) (files w)"
proof -
  from reach have ne: "\<forall>e. vs_verdict env server_url c (L, w) \<noteq> Escaped e"
    by (auto simp: reaches_verification_def)
  from vs_iteration_tried [OF refl ne tmp] show ?thesis by auto
qed

text \<open>On the sample service: a verification that succeeds, one that fails, one that
  raises \<^verbatim>\<open>KeyError\<close> before the key is written, and one that raises \<^verbatim>\<open>SystemExit\<close>.\<close>

theorem staged_key_file_is_deleted_witness:
  "(\<exists>L' w'. vs_iteration demo_env ''srv'' (CollectionRef ''bl'' ''addons'') (vs_init, demo_world) = (None, L', w')
      \<and> f_tmp L' = Some 0 \<and> 0 \<notin> fst ` set (files w') \<and> files w' = [])
   \<and> (\<exists>L' w'. vs_iteration demo_env ''srv'' (CollectionRef ''bl'' ''certs'') (vs_init, demo_world) = (None, L', w')
      \<and> f_tmp L' = Some 0 \<and> 0 \<notin> fst ` set (files w') \<and> files w' = [])
   \<and> (\<exists>L' w'. vs_iteration demo_env ''srv'' (CollectionRef ''bl'' ''nokey'') (vs_init, demo_world) = (None, L', w')
      \<and> f_tmp L' = Some 0 \<and> 0 \<notin> fst ` set (files w') \<and> files w' = [])
   \<and> (\<exists>L' w'. vs_iteration demo_env ''srv'' (CollectionRef ''bl'' ''halt'') (vs_init, demo_world)
          = (Some (Exc ''SystemExit'' ''1''), L', w')
      \<and> f_tmp L' = Some 0 \<and> 0 \<notin> fst ` set (files w') \<and> files w' = [])"
proof -
  have tmp: "tmp_error demo_env (next_tmp demo_world) = None" by (simp add: demo_env_sel)
  have r1: "reaches_verification demo_env ''srv'' (CollectionRef ''bl'' ''addons'') (vs_init, demo_world)"
    by (simp add: reaches_verification_def demo_addons)
  have r2: "reaches_verification demo_env ''srv'' (CollectionRef ''bl'' ''certs'') (vs_init, demo_world)"
    by (simp add: reaches_verification_def demo_certs)
  have r3: "reaches_verification demo_env ''srv'' (CollectionRef ''bl'' ''nokey'') (vs_init, demo_world)"
    by (simp add: reaches_verification_def demo_nokey)
  have r4: "reaches_verification demo_env ''srv'' (CollectionRef ''bl'' ''halt'') (vs_init, demo_world)"
    by (simp add: reaches_verification_def demo_halt)
  have w: "next_tmp demo_world = 0" "files demo_world = []" by (simp_all add: demo_world_def)
  from staged_key_file_is_deleted [OF r1 tmp] staged_key_file_is_deleted [OF r2 tmp]
       staged_key_file_is_deleted [OF r3 tmp] staged_key_file_is_deleted [OF r4 tmp]
  show ?thesis unfolding w demo_addons demo_certs demo_nokey demo_halt by simp
qed

section \<open>validate_signature: the lines of a failure\<close>

text \<open>
  C7, as amended. The entry recorded for a failed verification (the \<^verbatim>\<open>try\<close> body raises
  an exception that line 85 catches) ends with the line
  \<^verbatim>\<open> - Serialized content: \<close> followed by the whole serialised content between
  backquotes: its length is the length of the content plus 25, so it is not bounded.
\<close>

theorem fail_entry_holds_whole_serialization:
  assumes "vs_verdict env server_url c (L, w) = Failed e t s h"
  shows "\<exists>r L' w'. vs_iteration env server_url c (L, w) = (r, L', w')
          \<and> messages L' = messages L @
               [looking_at env (vs_client server_url c),
                ''Signature KO.'',
                '' - Computed hash: '' @ backquote @ h @ backquote,
                '' - Collection timestamp: '' @ backquote @ py_str env t @ backquote,
                '' - Serialized content: '' @ backquote @ s @ backquote]
          \<and> length (last (messages L')) = length s + 25"
proof -
  let ?cl = "vs_client server_url c"
  let ?L0 = "L\<lparr>messages := messages L @ [looking_at env ?cl]\<rparr>"
  obtain r w1 where st: "vs_steps env ?cl (py_print (looking_at env ?cl) [] w) = (r, w1)"
    by (cases "vs_steps env ?cl (py_print (looking_at env ?cl) [] w)") auto
  from assms st obtain sg where r: "r = Inr (t, s, h, sg)"
    by (cases r) (auto simp: vs_verdict_def vs_begin_eq split: option.splits prod.splits if_splits)
  from assms st r obtain S2 where tr: "vs_try env s sg (?L0, w1) = (Some e, S2)"
    and ie: "is_Exception e"
    by (auto simp: vs_verdict_def vs_begin_eq split: option.splits prod.splits if_splits)
  obtain L2 w2 where S2: "S2 = (L2, w2)" by (cases S2)
  from vs_try_messages [OF tr [unfolded S2]] have m2: "messages L2 = messages L @ [looking_at env ?cl]"
    by simp
  obtain x L3 w3 where fin: "vs_finally (vs_except env e t s h (L2, w2)) = (x, L3, w3)"
    by (cases "vs_finally (vs_except env e t s h (L2, w2))") auto
  from fin have "L3 = fst (vs_except env e t s h (L2, w2))"
    by (cases "vs_except env e t s h (L2, w2)") (auto dest: vs_finally_locals)
  with m2 have m3: "messages L3 = messages L @ looking_at env ?cl # ko_message env t s h"
    by (simp add: vs_except_def Let_def)
  from st r tr S2 fin ie have "vs_iteration env server_url c (L, w) = (x, L3, w3)"
    by (simp add: vs_iteration_def vs_begin_eq)
  with m3 show ?thesis
    by (simp add: ko_message_def backquote_def)
qed

text \<open>On the sample service, for the collection \<open>certs\<close>.\<close>

theorem fail_entry_holds_whole_serialization_witness:
  "\<exists>r L' w'. vs_iteration demo_env ''srv'' (CollectionRef ''bl'' ''certs'') (vs_init, demo_world) = (r, L', w')
     \<and> messages L' =
          [''Looking at /bl/certs: '',
           ''Signature KO.'',
           '' - Computed hash: '' @ backquote @ ''sha-canon-ts-certs'' @ backquote,
           '' - Collection timestamp: '' @ backquote @ ''ts-certs'' @ backquote,
           '' - Serialized content: '' @ backquote @ ''canon-ts-certs'' @ backquote]
     \<and> length (last (messages L')) = 39"
proof -
  have m: "messages vs_init = []" by (simp add: vs_init_def)
  have la: "looking_at demo_env (vs_client ''srv'' (CollectionRef ''bl'' ''certs'')) = ''Looking at /bl/certs: ''"
    by (simp_all add: looking_at_def vs_client_def demo_env_sel)
  have py: "py_str demo_env (JStr ''ts-certs'') = ''ts-certs''" "length ''canon-ts-certs'' + 25 = 39"
    by simp_all
  from fail_entry_holds_whole_serialization [OF demo_certs]
  show ?thesis unfolding m la py append_Nil by blast
qed

text \<open>
  The claim as first stated (an excerpt of bounded length) fails: the line holds the whole
  content, and a longer content gives a longer line.
\<close>

theorem fail_entry_grows_with_serialization:
  "last (messages (fst (snd (vs_iteration demo_env ''srv'' (CollectionRef ''bl'' ''certs'') (vs_init, demo_world)))))
     = '' - Serialized content: '' @ backquote @ ''canon-ts-certs'' @ backquote
   \<and> length (last (messages (fst (snd (vs_iteration demo_env ''srv'' (CollectionRef ''bl'' ''certs'') (vs_init, demo_world)))))) = 39
   \<and> last (messages (fst (snd (vs_iteration demo_env ''srv'' (CollectionRef ''bl'' ''a-much-longer-collection-name'') (vs_init, demo_world)))))
     = '' - Serialized content: '' @ backquote @ ''canon-ts-a-much-longer-collection-name'' @ backquote
   \<and> length (last (messages (fst (snd (vs_iteration demo_env ''srv'' (CollectionRef ''bl'' ''a-much-longer-collection-name'') (vs_init, demo_world)))))) = 63"
  by (simp add: demo_defs eval_defs)

section \<open>validate_signature: what is serialised\<close>

text \<open>
  C8. When the three fetches of an iteration succeed, the iteration asks for the records
  with \<^verbatim>\<open>_sort='-last_modified'\<close>, then for the records timestamp, and calls the
  serialiser once, on the records and the timestamp that these two calls returned. What
  the verifier is given, if it is called, is the result of that serialisation.
\<close>

theorem canonical_bytes_from_sorted_records_and_fetched_timestamp:
  assumes col: "remote env (trace w) (GetCollection (vs_client server_url c)) = Inr dest_col"
    and recs: "remote env (trace w @ [Remote (GetCollection (vs_client server_url c))])
                 (GetRecords (vs_client server_url c) (Some ''-last_modified'')) = Inr records"
    and ts: "remote env (trace w @ [Remote (GetCollection (vs_client server_url c)),
                 Remote (GetRecords (vs_client server_url c) (Some ''-last_modified''))])
                 (GetRecordsTimestamp (vs_client server_url c) None) = Inr timestamp"
  shows "\<exists>r L' w' rest. vs_iteration env server_url c (L, w) = (r, L', w')
          \<and> trace w' = trace w @
               [Remote (GetCollection (vs_client server_url c)),
                Remote (GetRecords (vs_client server_url c) (Some ''-last_modified'')),
                Remote (GetRecordsTimestamp (vs_client server_url c) None),
                CanonicalJson records timestamp] @ rest
          \<and> concat (map canonical_inputs rest) = []
          \<and> (\<forall>s \<in> set (concat (map verified_bytes rest)). canonical_json env records timestamp = Inr s)"
proof -
  let ?cl = "vs_client server_url c"
  let ?w0 = "py_print (looking_at env ?cl) [] w"
  let ?L0 = "L\<lparr>messages := messages L @ [looking_at env ?cl]\<rparr>"
  let ?pre = "[Remote (GetCollection ?cl), Remote (GetRecords ?cl (Some ''-last_modified'')),
                Remote (GetRecordsTimestamp ?cl None), CanonicalJson records timestamp]"
  obtain r w1 where st: "vs_steps env ?cl ?w0 = (r, w1)"
    by (cases "vs_steps env ?cl ?w0") auto
  from st col recs ts have st_tr: "trace w1 = trace w @ ?pre
       @ (case canonical_json env records timestamp of Inl e \<Rightarrow> [] | Inr s \<Rightarrow> [ComputeHash s])"
    and st_r: "\<forall>t s h sg. r = Inr (t, s, h, sg) \<longrightarrow> t = timestamp \<and> canonical_json env records timestamp = Inr s"
    by (auto simp: vs_steps_def call_remote_def call_canonical_json_def call_compute_hash_def
          py_print_def split: sum.splits)
  show ?thesis
  proof (cases r)
    case (Inl e)
    with st have "vs_iteration env server_url c (L, w) = (Some e, ?L0, w1)"
      by (simp add: vs_iteration_def vs_begin_eq)
    with st_tr show ?thesis
      by (auto split: sum.splits)
  next
    case (Inr x)
    then obtain t s h sg where r: "r = Inr (t, s, h, sg)" by (cases x) auto
    with st_r have cj: "canonical_json env records timestamp = Inr s" by simp
    obtain x L2 w2 where tr: "vs_try env s sg (?L0, w1) = (x, L2, w2)"
      by (cases "vs_try env s sg (?L0, w1)") auto
    obtain y L3 w3 where it: "vs_iteration env server_url c (L, w) = (y, L3, w3)"
      by (cases "vs_iteration env server_url c (L, w)") auto
    from it st r tr have "trace w3 = trace w2"
      by (cases x) (auto simp: vs_iteration_def vs_begin_eq vs_except_def Let_def py_print_def
            dest: vs_finally_trace split: prod.splits option.splits if_splits)
    with vs_try_trace [OF tr] st_tr cj
    have "trace w3 = trace w @ ?pre @ [ComputeHash s] \<or> (\<exists>k. trace w3 = trace w @ ?pre @ [ComputeHash s, Verify k s sg])"
      by auto
    with it cj show ?thesis by auto
  qed
qed

text \<open>On the sample service, for the collection \<open>certs\<close>.\<close>

theorem canonical_bytes_from_sorted_records_and_fetched_timestamp_witness:
  "\<exists>r L' w' rest. vs_iteration demo_env ''srv'' (CollectionRef ''bl'' ''certs'') (vs_init, demo_world) = (r, L', w')
     \<and> trace w' =
          [Remote (GetCollection (Client ''srv'' ''bl'' ''certs'' None)),
           Remote (GetRecords (Client ''srv'' ''bl'' ''certs'' None) (Some ''-last_modified'')),
           Remote (GetRecordsTimestamp (Client ''srv'' ''bl'' ''certs'' None) None),
           CanonicalJson (JArr [demo_entry ''addons'' 100, demo_entry ''plugins'' 100]) (JStr ''ts-certs'')] @ rest
     \<and> concat (map canonical_inputs rest) = []
     \<and> set (concat (map verified_bytes rest)) \<subseteq> {''canon-ts-certs''}"
proof -
  let ?cl = "vs_client ''srv'' (CollectionRef ''bl'' ''certs'')"
  have cl: "?cl = Client ''srv'' ''bl'' ''certs'' None" by (simp add: vs_client_def)
  have tr: "trace demo_world = []" by (simp add: demo_world_def)
  have a: "remote demo_env (trace demo_world) (GetCollection ?cl)
      = Inr (JObj [(''data'', JObj [(''status'', JStr ''signed''), (''last_modified'', JInt 500),
            (''signature'', JObj [(''public_key'', JStr ''certs''), (''signature'', JStr ''c2ln'')])])])"
    by (simp add: demo_env_sel demo_remote_def vs_client_def)
  have b: "remote demo_env (trace demo_world @ [Remote (GetCollection ?cl)])
      (GetRecords ?cl (Some ''-last_modified'')) = Inr (JArr [demo_entry ''addons'' 100, demo_entry ''plugins'' 100])"
    by (simp add: demo_env_sel demo_remote_def vs_client_def)
  have c: "remote demo_env (trace demo_world @ [Remote (GetCollection ?cl),
      Remote (GetRecords ?cl (Some ''-last_modified''))]) (GetRecordsTimestamp ?cl None) = Inr (JStr ''ts-certs'')"
    by (simp add: demo_env_sel demo_remote_def vs_client_def)
  have cj: "canonical_json demo_env (JArr [demo_entry ''addons'' 100, demo_entry ''plugins'' 100])
      (JStr ''ts-certs'') = Inr ''canon-ts-certs''"
    by (simp add: demo_env_sel)
  have sub: "\<And>A. (\<forall>s\<in>A. Inr ''canon-ts-certs'' = (Inr s :: exc + string)) = (A \<subseteq> {''canon-ts-certs''})"
    by auto
  from canonical_bytes_from_sorted_records_and_fetched_timestamp [OF a b c, of vs_init]
  show ?thesis unfolding cl tr cj sub append_Nil by blast
qed

section \<open>validate_changes_collection\<close>

lemma vcc_fetch_Inr:
  assumes "vcc_fetch env cl entry w = (Inr x, w1)"
  shows "entry_read entry x
       \<and> remote env (trace w) (GetRecordsTimestamp cl (Some (fst x, fst (snd x)))) = Inr (snd (snd (snd x)))
       \<and> w1 = w\<lparr>trace := trace w @ [Remote (GetRecordsTimestamp cl (Some (fst x, fst (snd x))))]\<rparr>"
  using assms by (auto simp: vcc_fetch_def entry_read_def call_remote_def split: sum.splits)

lemma vcc_iteration_fetched:
  assumes "vcc_fetch env cl entry w = (Inr x, w1)"
  shows "\<exists>w'. vcc_iteration env cl entry (ok, w) = (None, ok \<and> \<not> etag_differs env x, w')
          \<and> trace w' = trace w1"
  using assms
  by (cases x) (auto simp: vcc_iteration_def etag_differs_def py_print_def)

lemma vcc_loop_effect:
  assumes "\<forall>r\<in>set (vcc_fetches env cl entries (ok, w)). \<not> isl r"
  shows "\<exists>w'. vcc_loop env cl entries (ok, w)
            = (None, ok \<and> (\<forall>r\<in>set (vcc_fetches env cl entries (ok, w)). \<not> etag_differs env (projr r)), w')
       \<and> list_all2 entry_read entries (map projr (vcc_fetches env cl entries (ok, w)))
       \<and> timestamps_requested (trace w') = timestamps_requested (trace w)
            @ map (\<lambda>r. (fst (projr r), fst (snd (projr r)))) (vcc_fetches env cl entries (ok, w))"
  using assms
proof (induction entries arbitrary: ok w)
  case Nil
  then show ?case by simp
next
  case (Cons entry entries)
  obtain r w0 where f0: "vcc_fetch env cl entry w = (r, w0)" by (cases "vcc_fetch env cl entry w")
  with Cons.prems obtain x where r: "r = Inr x" by (cases r) auto
  note f = f0 [unfolded r]
  from vcc_iteration_fetched [OF f] obtain w1
    where it: "vcc_iteration env cl entry (ok, w) = (None, ok \<and> \<not> etag_differs env x, w1)"
      and tr: "trace w1 = trace w0" by blast
  note fx = vcc_fetch_Inr [OF f]
  from Cons.prems it have "\<forall>r\<in>set (vcc_fetches env cl entries (ok \<and> \<not> etag_differs env x, w1)). \<not> isl r"
    by simp
  note ih = Cons.IH [OF this]
  from fx tr have tr1: "timestamps_requested (trace w1) = timestamps_requested (trace w) @ [(fst x, fst (snd x))]"
    by (simp add: timestamps_requested_def)
  from it f fx ih tr1 show ?case by auto
qed

text \<open>
  C5. When the registry is fetched and lines 115 to 118 raise for no entry, every entry
  is read and the timestamp of the (bucket, collection) it names is asked for, in order; the
  function raises \<^verbatim>\<open>ValueError("One of the collection did not validate.")\<close>, which names
  no entry, if and only if for some entry the rendering of the fetched timestamp differs
  from the rendering of the recorded \<^verbatim>\<open>last_modified\<close>, and returns normally otherwise.
\<close>

theorem changes_validation_raises_iff_mismatch:
  assumes srv: "ev_server event = Some server_url"
    and reg: "vcc_registry env (vcc_client event server_url) w = (Inr entries, w1)"
    and fetches: "\<forall>r\<in>set (vcc_fetches env (vcc_client event server_url) entries (True, w1)). \<not> isl r"
  shows "\<exists>w2. validate_changes_collection env event w =
            (if \<exists>r\<in>set (vcc_fetches env (vcc_client event server_url) entries (True, w1)).
                  etag_differs env (projr r)
             then Inl (ValueError ''One of the collection did not validate.'') else Inr (), w2)
          \<and> list_all2 entry_read entries
               (map projr (vcc_fetches env (vcc_client event server_url) entries (True, w1)))
          \<and> timestamps_requested (trace w2) = timestamps_requested (trace w1)
               @ map (\<lambda>r. (fst (projr r), fst (snd (projr r))))
                   (vcc_fetches env (vcc_client event server_url) entries (True, w1))"
proof -
  from vcc_loop_effect [OF fetches] srv reg show ?thesis
    by (auto simp: validate_changes_collection_def)
qed

text \<open>On the sample service: the registry \<open>changes\<close> validates, the registry \<open>stale\<close>
  (one entry of two differs) does not.\<close>

theorem changes_validation_raises_iff_mismatch_witness:
  "(\<exists>w2. validate_changes_collection demo_env (changes_event None) demo_world = (Inr (), w2)
       \<and> timestamps_requested (trace w2) = [(JStr ''bl'', JStr ''addons'')])
   \<and> (\<exists>w2. validate_changes_collection demo_env (changes_event (Some ''stale'')) demo_world
         = (Inl (ValueError ''One of the collection did not validate.''), w2)
       \<and> timestamps_requested (trace w2) = [(JStr ''bl'', JStr ''addons''), (JStr ''bl'', JStr ''plugins'')])"
proof -
  let ?w1 = "\<lambda>cid. \<lparr>trace = [Remote (GetRecords (Client ''srv'' ''monitor'' cid None) None)],
                stdout = ''Looking at /monitor/'' @ cid @ '': '' @ NL, files = [], next_tmp = 0\<rparr>"
  have srv: "ev_server (changes_event None) = Some ''srv''" "ev_server (changes_event (Some ''stale'')) = Some ''srv''"
    by (simp_all add: changes_event_def)
  have cl: "vcc_client (changes_event None) ''srv'' = Client ''srv'' ''monitor'' ''changes'' None"
    "vcc_client (changes_event (Some ''stale'')) ''srv'' = Client ''srv'' ''monitor'' ''stale'' None"
    by (simp_all add: changes_event_def vcc_client_def)
  have reg1: "vcc_registry demo_env (Client ''srv'' ''monitor'' ''changes'' None) demo_world
      = (Inr [demo_entry ''addons'' 100], ?w1 ''changes'')"
    by (simp add: demo_env_sel demo_remote_def demo_world_def vcc_eval)
  have reg2: "vcc_registry demo_env (Client ''srv'' ''monitor'' ''stale'' None) demo_world
      = (Inr [demo_entry ''addons'' 100, demo_entry ''plugins'' 100], ?w1 ''stale'')"
    by (simp add: demo_env_sel demo_remote_def demo_world_def vcc_eval)
  have f1: "vcc_fetches demo_env (Client ''srv'' ''monitor'' ''changes'' None) [demo_entry ''addons'' 100]
      (True, ?w1 ''changes'') = [Inr (JStr ''bl'', JStr ''addons'', JInt 100, JStr ''100'')]"
    by (simp add: demo_defs vcc_eval)
  have f2: "vcc_fetches demo_env (Client ''srv'' ''monitor'' ''stale'' None)
      [demo_entry ''addons'' 100, demo_entry ''plugins'' 100] (True, ?w1 ''stale'')
      = [Inr (JStr ''bl'', JStr ''addons'', JInt 100, JStr ''100''),
         Inr (JStr ''bl'', JStr ''plugins'', JInt 100, JStr ''101'')]"
    by (simp add: demo_defs vcc_eval)
  have ok1: "\<forall>r\<in>set (vcc_fetches demo_env (Client ''srv'' ''monitor'' ''changes'' None) [demo_entry ''addons'' 100]
      (True, ?w1 ''changes'')). \<not> isl r"
    unfolding f1 by simp
  have ok2: "\<forall>r\<in>set (vcc_fetches demo_env (Client ''srv'' ''monitor'' ''stale'' None)
      [demo_entry ''addons'' 100, demo_entry ''plugins'' 100] (True, ?w1 ''stale'')). \<not> isl r"
    unfolding f2 by simp
  from changes_validation_raises_iff_mismatch [OF srv(1), unfolded cl, OF reg1 ok1]
       changes_validation_raises_iff_mismatch [OF srv(2), unfolded cl, OF reg2 ok2]
  show ?thesis unfolding f1 f2
    by (simp add: etag_differs_def timestamps_requested_def show_int_def show_nat.simps) blast
qed

section \<open>refresh_signature\<close>

lemma rs_trigger_trace:
  "rs_trigger env cl w = (r, w') \<Longrightarrow> trace w' = trace w @ [Remote (PatchCollection cl to_sign)]"
  by (auto simp: rs_trigger_def call_remote_def py_print_def split: sum.splits)

lemma rs_trigger_ok:
  assumes "remote env (trace w) (PatchCollection cl to_sign) = Inr p"
    "getitem p ''data'' = Inr d" "getitem d ''last_modified'' = Inr lm'"
  shows "rs_trigger env cl w = (Inr lm', w\<lparr>stdout := stdout w @ ''Trigger new signature: '',
            trace := trace w @ [Remote (PatchCollection cl to_sign)]\<rparr>)"
  using assms by (simp add: rs_trigger_def call_remote_def py_print_def)

text \<open>
  C4. In an iteration whose collection is fetched with a status and a \<^verbatim>\<open>last_modified\<close>:
  the iteration sends exactly one patch, \<^verbatim>\<open>{'status': 'to-sign'}\<close>, when the status is
  \<^verbatim>\<open>'signed'\<close>, and none otherwise, however it ends. When the status is \<^verbatim>\<open>'signed'\<close>
  and the patch answers with a \<^verbatim>\<open>last_modified\<close>, the line printed reports that
  timestamp; for any other status the line reports the \<^verbatim>\<open>last_modified\<close> that was
  fetched.
\<close>

theorem refresh_patches_exactly_when_signed:
  assumes fetch: "remote env (trace w) (GetCollection (rs_client server_url au c)) = Inr r"
    and meta: "getitem r ''data'' = Inr m" "getitem m ''last_modified'' = Inr lm"
      "getitem m ''status'' = Inr status"
  shows "(\<forall>res w'. rs_iteration env server_url au c w = (res, w') \<longrightarrow>
            patches_sent (trace w') = patches_sent (trace w)
              @ (if status = JStr ''signed'' then [(rs_client server_url au c, to_sign)] else []))
       \<and> (status = JStr ''signed'' \<longrightarrow>
            (\<forall>p d lm' date.
               remote env (trace w @ [Remote (GetCollection (rs_client server_url au c))])
                 (PatchCollection (rs_client server_url au c) to_sign) = Inr p
               \<and> getitem p ''data'' = Inr d \<and> getitem d ''last_modified'' = Inr lm'
               \<and> timestamp_to_date env lm' = Inr date \<longrightarrow>
               (\<exists>w'. rs_iteration env server_url au c w = (None, w')
                  \<and> stdout w' = stdout w @ rs_looking_at env (rs_client server_url au c)
                       @ ''Trigger new signature: '' @ status_line env status date lm' @ NL)))
       \<and> (status \<noteq> JStr ''signed'' \<longrightarrow>
            (\<forall>date. timestamp_to_date env lm = Inr date \<longrightarrow>
               (\<exists>w'. rs_iteration env server_url au c w = (None, w')
                  \<and> stdout w' = stdout w @ rs_looking_at env (rs_client server_url au c)
                       @ status_line env status date lm @ NL)))"
proof (intro conjI allI impI)
  fix res w'
  assume it: "rs_iteration env server_url au c w = (res, w')"
  let ?cl = "rs_client server_url au c"
  let ?w1 = "w\<lparr>stdout := stdout w @ rs_looking_at env ?cl, trace := trace w @ [Remote (GetCollection ?cl)]\<rparr>"
  show "patches_sent (trace w') = patches_sent (trace w)
          @ (if status = JStr ''signed'' then [(?cl, to_sign)] else [])"
  proof (cases "status = JStr ''signed''")
    case True
    obtain x w2 where tr: "rs_trigger env ?cl ?w1 = (x, w2)"
      by (cases "rs_trigger env ?cl ?w1") auto
    from rs_trigger_trace [OF tr] have "trace w2 = trace w @ [Remote (GetCollection ?cl), Remote (PatchCollection ?cl to_sign)]"
      by simp
    with it True fetch meta tr show ?thesis
      by (auto simp: rs_iteration_def rs_client_def rs_looking_at_def call_remote_def py_print_def
            patches_sent_def Let_def split: sum.splits)
  next
    case False
    with it fetch meta show ?thesis
      by (auto simp: rs_iteration_def rs_client_def call_remote_def py_print_def
            patches_sent_def Let_def split: sum.splits)
  qed
next
  fix p d lm' date
  let ?cl = "rs_client server_url au c"
  let ?w1 = "w\<lparr>stdout := stdout w @ rs_looking_at env ?cl, trace := trace w @ [Remote (GetCollection ?cl)]\<rparr>"
  assume s: "status = JStr ''signed''"
    and p: "remote env (trace w @ [Remote (GetCollection ?cl)]) (PatchCollection ?cl to_sign) = Inr p
       \<and> getitem p ''data'' = Inr d \<and> getitem d ''last_modified'' = Inr lm'
       \<and> timestamp_to_date env lm' = Inr date"
  from p have "rs_trigger env ?cl ?w1 = (Inr lm', ?w1\<lparr>stdout := stdout ?w1 @ ''Trigger new signature: '',
            trace := trace ?w1 @ [Remote (PatchCollection ?cl to_sign)]\<rparr>)"
    by (intro rs_trigger_ok) auto
  with s p fetch meta
  show "\<exists>w'. rs_iteration env server_url au c w = (None, w')
          \<and> stdout w' = stdout w @ rs_looking_at env ?cl
               @ ''Trigger new signature: '' @ status_line env status date lm' @ NL"
    by (simp add: rs_iteration_def rs_client_def rs_looking_at_def call_remote_def py_print_def Let_def)
next
  fix date
  let ?cl = "rs_client server_url au c"
  assume "status \<noteq> JStr ''signed''" "timestamp_to_date env lm = Inr date"
  with fetch meta
  show "\<exists>w'. rs_iteration env server_url au c w = (None, w')
          \<and> stdout w' = stdout w @ rs_looking_at env ?cl @ status_line env status date lm @ NL"
    by (simp add: rs_iteration_def rs_client_def rs_looking_at_def call_remote_def py_print_def Let_def)
qed

text \<open>On the sample service: a signed collection and one in progress.\<close>

theorem refresh_patches_exactly_when_signed_witness:
  "(\<exists>w'. rs_iteration demo_env ''srv'' [''user'', ''sec:ret''] (CollectionRef ''bl'' ''addons'') demo_world = (None, w')
      \<and> stdout w' = ''Looking at /bl/addons: Trigger new signature: signed at 1970-01-01 00:00:00 UTC ( 600 )'' @ NL
      \<and> patches_sent (trace w') = [(Client ''srv'' ''bl'' ''addons'' (Some [''user'', ''sec:ret'']), to_sign)])
   \<and> (\<exists>w'. rs_iteration demo_env ''srv'' [''user'', ''sec:ret''] (CollectionRef ''staging'' ''addons'') demo_world = (None, w')
      \<and> stdout w' = ''Looking at /staging/addons: work-in-progress at 1970-01-01 00:00:00 UTC ( 500 )'' @ NL
      \<and> patches_sent (trace w') = [])"
proof -
  let ?au = "[''user'', ''sec:ret'']"
  have out: "stdout demo_world = []" "patches_sent (trace demo_world) = []"
    "rs_looking_at demo_env (rs_client ''srv'' ?au (CollectionRef ''bl'' ''addons'')) = ''Looking at /bl/addons: ''"
    "rs_looking_at demo_env (rs_client ''srv'' ?au (CollectionRef ''staging'' ''addons'')) = ''Looking at /staging/addons: ''"
    "status_line demo_env (JStr ''signed'') ''1970-01-01 00:00:00 UTC'' (JInt 600) = ''signed at 1970-01-01 00:00:00 UTC ( 600 )''"
    "status_line demo_env (JStr ''work-in-progress'') ''1970-01-01 00:00:00 UTC'' (JInt 500) = ''work-in-progress at 1970-01-01 00:00:00 UTC ( 500 )''"
    "rs_client ''srv'' ?au (CollectionRef ''bl'' ''addons'') = Client ''srv'' ''bl'' ''addons'' (Some ?au)"
    "rs_looking_at demo_env (Client ''srv'' ''bl'' ''addons'' (Some ?au)) = ''Looking at /bl/addons: ''"
    by (simp_all add: demo_world_def rs_looking_at_def rs_client_def demo_env_sel show_int_def
          show_nat.simps status_line_def patches_sent_def)
  note a = refresh_patches_exactly_when_signed
         [where env = demo_env and w = demo_world and lm = "JInt 500" and status = "JStr ''signed''"
            and server_url = "''srv''" and au = ?au and c = "CollectionRef ''bl'' ''addons''",
          OF demo_signed]
  note b = refresh_patches_exactly_when_signed
         [where env = demo_env and w = demo_world and lm = "JInt 500" and status = "JStr ''work-in-progress''"
            and server_url = "''srv''" and au = ?au and c = "CollectionRef ''staging'' ''addons''",
          OF demo_wip]
  have a1: "\<exists>w'. rs_iteration demo_env ''srv'' ?au (CollectionRef ''bl'' ''addons'') demo_world = (None, w')
      \<and> stdout w' = stdout demo_world @ rs_looking_at demo_env (rs_client ''srv'' ?au (CollectionRef ''bl'' ''addons''))
           @ ''Trigger new signature: '' @ status_line demo_env (JStr ''signed'') ''1970-01-01 00:00:00 UTC'' (JInt 600) @ NL"
    using a [THEN conjunct2, THEN conjunct1, rule_format, OF _ _ _ refl,
             where p = "JObj [(''data'', JObj [(''status'', JStr ''to-sign''), (''last_modified'', JInt 600)])]"
               and d = "JObj [(''status'', JStr ''to-sign''), (''last_modified'', JInt 600)]"
               and lm' = "JInt 600" and date = "''1970-01-01 00:00:00 UTC''"]
    by (simp add: demo_patch demo_date)
  then obtain w1 where w1: "rs_iteration demo_env ''srv'' ?au (CollectionRef ''bl'' ''addons'') demo_world = (None, w1)"
    and o1: "stdout w1 = stdout demo_world @ rs_looking_at demo_env (rs_client ''srv'' ?au (CollectionRef ''bl'' ''addons''))
           @ ''Trigger new signature: '' @ status_line demo_env (JStr ''signed'') ''1970-01-01 00:00:00 UTC'' (JInt 600) @ NL"
    by blast
  from a [THEN conjunct1, rule_format, OF _ _ _ w1]
  have p1: "patches_sent (trace w1) = patches_sent (trace demo_world) @ [(rs_client ''srv'' ?au (CollectionRef ''bl'' ''addons''), to_sign)]"
    by simp
  have b1: "\<exists>w'. rs_iteration demo_env ''srv'' ?au (CollectionRef ''staging'' ''addons'') demo_world = (None, w')
      \<and> stdout w' = stdout demo_world @ rs_looking_at demo_env (rs_client ''srv'' ?au (CollectionRef ''staging'' ''addons''))
           @ status_line demo_env (JStr ''work-in-progress'') ''1970-01-01 00:00:00 UTC'' (JInt 500) @ NL"
    using b [THEN conjunct2, THEN conjunct2, rule_format, OF _ _ _ _ demo_date]
    by simp
  then obtain w2 where w2: "rs_iteration demo_env ''srv'' ?au (CollectionRef ''staging'' ''addons'') demo_world = (None, w2)"
    and o2: "stdout w2 = stdout demo_world @ rs_looking_at demo_env (rs_client ''srv'' ?au (CollectionRef ''staging'' ''addons''))
           @ status_line demo_env (JStr ''work-in-progress'') ''1970-01-01 00:00:00 UTC'' (JInt 500) @ NL"
    by blast
  from b [THEN conjunct1, rule_format, OF _ _ _ w2]
  have p2: "patches_sent (trace w2) = patches_sent (trace demo_world)"
    by simp
  from w1 o1 p1 w2 o2 p2 show ?thesis unfolding out by simp
qed

text \<open>
  C3, as amended. For a collection fetched with the status \<^verbatim>\<open>'signed'\<close>, the status
  printed after the patch is the status that was fetched, \<open>signed\<close>, whatever status the
  answer of the patch carries; only the timestamp is taken from that answer.
\<close>

theorem refresh_reports_fetched_status:
  assumes fetch: "remote env (trace w) (GetCollection (rs_client server_url au c)) = Inr r"
    and meta: "getitem r ''data'' = Inr m" "getitem m ''last_modified'' = Inr lm"
      "getitem m ''status'' = Inr (JStr ''signed'')"
    and patch: "remote env (trace w @ [Remote (GetCollection (rs_client server_url au c))])
                 (PatchCollection (rs_client server_url au c) to_sign) = Inr p"
      "getitem p ''data'' = Inr d" "getitem d ''last_modified'' = Inr lm'"
    and date: "timestamp_to_date env lm' = Inr date"
  shows "\<exists>w'. rs_iteration env server_url au c w = (None, w')
          \<and> stdout w' = stdout w @ rs_looking_at env (rs_client server_url au c)
               @ ''Trigger new signature: ''
               @ ''signed at '' @ date @ '' ( '' @ py_str env lm' @ '' )'' @ NL"
proof -
  let ?cl = "rs_client server_url au c"
  let ?w1 = "w\<lparr>stdout := stdout w @ rs_looking_at env ?cl, trace := trace w @ [Remote (GetCollection ?cl)]\<rparr>"
  from patch have "rs_trigger env ?cl ?w1 = (Inr lm', ?w1\<lparr>stdout := stdout ?w1 @ ''Trigger new signature: '',
            trace := trace ?w1 @ [Remote (PatchCollection ?cl to_sign)]\<rparr>)"
    by (intro rs_trigger_ok) auto
  with fetch meta date show ?thesis
    by (simp add: rs_iteration_def rs_client_def rs_looking_at_def call_remote_def py_print_def Let_def
          status_line_def)
qed

text \<open>On the sample service.\<close>

theorem refresh_reports_fetched_status_witness:
  "\<exists>w'. rs_iteration demo_env ''srv'' [''user'', ''sec:ret''] (CollectionRef ''bl'' ''addons'') demo_world = (None, w')
     \<and> stdout w' = ''Looking at /bl/addons: Trigger new signature: signed at 1970-01-01 00:00:00 UTC ( 600 )'' @ NL"
proof -
  have out: "stdout demo_world = []"
    "rs_looking_at demo_env (rs_client ''srv'' [''user'', ''sec:ret''] (CollectionRef ''bl'' ''addons'')) = ''Looking at /bl/addons: ''"
    "py_str demo_env (JInt 600) = ''600''"
    by (simp_all add: demo_world_def rs_looking_at_def rs_client_def demo_env_sel show_int_def show_nat.simps)
  from refresh_reports_fetched_status
         [where env = demo_env and w = demo_world and lm = "JInt 500" and lm' = "JInt 600",
          OF demo_signed _ _ _ demo_patch _ _ demo_date]
  have "\<exists>w'. rs_iteration demo_env ''srv'' [''user'', ''sec:ret''] (CollectionRef ''bl'' ''addons'') demo_world = (None, w')
     \<and> stdout w' = stdout demo_world
          @ rs_looking_at demo_env (rs_client ''srv'' [''user'', ''sec:ret''] (CollectionRef ''bl'' ''addons''))
          @ ''Trigger new signature: '' @ ''signed at '' @ ''1970-01-01 00:00:00 UTC'' @ '' ( ''
          @ py_str demo_env (JInt 600) @ '' )'' @ NL"
    by simp
  then show ?thesis unfolding out by simp
qed

text \<open>
  The claim as first stated (the status printed is \<open>to-sign\<close>) fails: the answer of the
  patch carries the status \<open>to-sign\<close>, and the line printed says \<open>signed\<close>.
\<close>

theorem refresh_prints_status_before_patch:
  "remote demo_env [Remote (GetCollection (rs_client ''srv'' [''user'', ''sec:ret''] (CollectionRef ''bl'' ''addons'')))]
      (PatchCollection (rs_client ''srv'' [''user'', ''sec:ret''] (CollectionRef ''bl'' ''addons'')) to_sign)
     = Inr (JObj [(''data'', JObj [(''status'', JStr ''to-sign''), (''last_modified'', JInt 600)])])
   \<and> rs_iteration demo_env ''srv'' [''user'', ''sec:ret''] (CollectionRef ''bl'' ''addons'') demo_world
     = (None,
        \<lparr>trace = [Remote (GetCollection (Client ''srv'' ''bl'' ''addons'' (Some [''user'', ''sec:ret'']))),
                  Remote (PatchCollection (Client ''srv'' ''bl'' ''addons'' (Some [''user'', ''sec:ret'']))
                     (JObj [(''status'', JStr ''to-sign'')]))],
         stdout = ''Looking at /bl/addons: Trigger new signature: signed at 1970-01-01 00:00:00 UTC ( 600 )'' @ NL,
         files = [], next_tmp = 0\<rparr>)"
  by (simp add: demo_defs rs_eval)

section \<open>refresh_signature: the credentials\<close>

lemma dropWhile_no_sep: "sep \<notin> set u \<Longrightarrow> dropWhile (\<lambda>c. c \<noteq> sep) (u @ r) = dropWhile (\<lambda>c. c \<noteq> sep) r"
  by (induction u) auto

lemma takeWhile_no_sep: "sep \<notin> set u \<Longrightarrow> takeWhile (\<lambda>c. c \<noteq> sep) (u @ r) = u @ takeWhile (\<lambda>c. c \<noteq> sep) r"
  by (induction u) auto

lemma dropWhile_no_sep_all: "sep \<notin> set s \<Longrightarrow> dropWhile (\<lambda>c. c \<noteq> sep) s = []"
  by (induction s) auto

lemma split1_first:
  "sep \<notin> set u \<Longrightarrow> split1 sep (u @ sep # r) = [u, r]"
  by (simp add: split1_def dropWhile_no_sep takeWhile_no_sep)

lemma split1_none:
  "sep \<notin> set s \<Longrightarrow> split1 sep s = [s]"
  by (simp add: split1_def dropWhile_no_sep_all)

text \<open>
  C10. The credentials are split at the first colon only: when the variable holds
  \<open>user:rest\<close> with no colon in \<open>user\<close>, the tuple is \<open>(user, rest)\<close>, whatever colons
  \<open>rest\<close> has; when it holds no colon at all, the tuple has the one component.
\<close>

theorem refresh_auth_splits_at_first_colon:
  assumes "getenv env ''REFRESH_SIGNATURE_AUTH'' = Some s"
  shows "(CHR '':'' \<notin> set user \<and> s = user @ '':'' @ rest \<longrightarrow> refresh_auth env = Inr [user, rest])
       \<and> (CHR '':'' \<notin> set s \<longrightarrow> refresh_auth env = Inr [s])"
  using assms by (auto simp: refresh_auth_def split1_first split1_none)

text \<open>For \<^verbatim>\<open>user:sec:ret\<close> and for \<^verbatim>\<open>token\<close>.\<close>

theorem refresh_auth_splits_at_first_colon_witness:
  "refresh_auth demo_env = Inr [''user'', ''sec:ret'']
   \<and> refresh_auth (demo_env\<lparr>getenv := \<lambda>name. Some ''token''\<rparr>) = Inr [''token'']"
proof -
  have a: "getenv demo_env ''REFRESH_SIGNATURE_AUTH'' = Some ''user:sec:ret''"
    by (simp add: demo_env_sel)
  have b: "getenv (demo_env\<lparr>getenv := \<lambda>name. Some ''token''\<rparr>) ''REFRESH_SIGNATURE_AUTH'' = Some ''token''"
    by simp
  from refresh_auth_splits_at_first_colon [OF a, of "''user''" "''sec:ret''"]
       refresh_auth_splits_at_first_colon [OF b, of "''user''" "''sec:ret''"]
  show ?thesis by simp
qed

end
